theory Spec2Isabelle
  imports Main "HOL-Library.Product_Lexorder"
begin

section \<open>JavaScript values and strings\<close>

text \<open>
  A JavaScript string is a sequence of UTF-16 code units; it is modelled as the list of
  their numbers. \<open>js\<close> writes an ASCII literal of the source as such a list.
\<close>

type_synonym jsstring = "nat list"

definition js :: "string \<Rightarrow> jsstring" where
  "js s = map of_char s"

text \<open>
  The scalar values that travel through \<open>params: any[]\<close> and that
  \<open>JSON.stringify\<close>/\<open>JSON.parse\<close> return unchanged: \<open>undefined\<close> (a missing
  property), \<open>null\<close>, booleans, finite integral numbers and strings.
\<close>

datatype jsval = JUndefined | JNull | JBool bool | JNum int | JStr jsstring

datatype js_error = ReferenceError | TypeError | SQLiteError string

fun truthy :: "jsval \<Rightarrow> bool" where
  "truthy JUndefined = False"
| "truthy JNull = False"
| "truthy (JBool b) = b"
| "truthy (JNum n) = (n \<noteq> 0)"
| "truthy (JStr s) = (s \<noteq> [])"

text \<open>The operator \<open>a || b\<close>.\<close>

definition js_or :: "jsval \<Rightarrow> jsval \<Rightarrow> jsval" where
  "js_or a b = (if truthy a then a else b)"

text \<open>\<open>params[i]\<close>: reading past the end of an array gives \<open>undefined\<close>.\<close>

definition param :: "jsval list \<Rightarrow> nat \<Rightarrow> jsval" where
  "param ps i = (if i < length ps then ps ! i else JUndefined)"

text \<open>\<open>String.prototype.includes\<close>: the argument occurs as a contiguous part.\<close>

fun starts_with :: "'a list \<Rightarrow> 'a list \<Rightarrow> bool" where
  "starts_with s [] = True"
| "starts_with [] (q # qs) = False"
| "starts_with (c # cs) (q # qs) = (c = q \<and> starts_with cs qs)"

fun str_includes :: "'a list \<Rightarrow> 'a list \<Rightarrow> bool" where
  "str_includes [] q = (q = [])"
| "str_includes (c # cs) q = (starts_with (c # cs) q \<or> str_includes cs q)"

text \<open>
  \<open>Array.prototype.findIndex\<close>: the index of the first element that satisfies the
  predicate; \<open>None\<close> stands for the result \<open>-1\<close>. \<open>Array.prototype.find\<close> returns
  the element at that index.
\<close>

fun find_index :: "('a \<Rightarrow> bool) \<Rightarrow> 'a list \<Rightarrow> nat option" where
  "find_index p [] = None"
| "find_index p (x # xs) = (if p x then Some 0 else map_option Suc (find_index p xs))"

section \<open>The key-value backend (webDatabase)\<close>

text \<open>
  A task object as the backends hold and return it. The id is always a number (the
  only writer sets it from \<open>Date.now()\<close>, the relational table declares it INTEGER); the
  other fields hold whatever value the caller passed.
\<close>

record StoredTask =
  s_id :: int
  s_title :: jsval
  s_description :: jsval
  s_status :: jsval
  s_deadline :: jsval

text \<open>
  The entry of AsyncStorage under the key \<open>@tasks\<close>: absent, or the JSON text of an
  array of tasks, modelled as the array it encodes.
\<close>

type_synonym AsyncStorage = "StoredTask list option"

record RunResult =
  rowsAffected :: jsval
  insertId :: jsval

definition getAllTasks :: "AsyncStorage \<Rightarrow> StoredTask list" where
  "getAllTasks storage = (case storage of None \<Rightarrow> [] | Some tasks \<Rightarrow> tasks)"

definition web_getAllAsync :: "AsyncStorage \<Rightarrow> StoredTask list" where
  "web_getAllAsync storage = (case storage of None \<Rightarrow> [] | Some tasks \<Rightarrow> tasks)"

text \<open>The call shape that the chain of \<open>sql.includes\<close> tests of \<open>runAsync\<close> selects.\<close>

datatype web_shape = ShapeInsert | ShapeSetStatus | ShapeSetDeadline | ShapeOtherUpdate
  | ShapeDelete | ShapeNone

definition web_shape_of :: "jsstring \<Rightarrow> web_shape" where
  "web_shape_of sql =
     (if str_includes sql (js ''INSERT'') then ShapeInsert
      else if str_includes sql (js ''UPDATE'') then
        (if str_includes sql (js ''SET status'') then ShapeSetStatus
         else if str_includes sql (js ''SET deadline'') then ShapeSetDeadline
         else ShapeOtherUpdate)
      else if str_includes sql (js ''DELETE'') then ShapeDelete
      else ShapeNone)"

text \<open>
  The body of \<open>runAsync\<close> between reading and writing the collection: the new value of
  \<open>insertId\<close> and of \<open>tasks\<close>. \<open>now\<close> is what \<open>Date.now()\<close> returns in this call.
\<close>

definition web_mutate :: "jsstring \<Rightarrow> jsval list \<Rightarrow> int \<Rightarrow> StoredTask list \<Rightarrow> int \<times> StoredTask list" where
  "web_mutate sql params now tasks =
     (case web_shape_of sql of
        ShapeInsert \<Rightarrow>
          (let newTask = \<lparr> s_id = now,
                           s_title = param params 0,
                           s_description = param params 1,
                           s_status = js_or (param params 2) (JStr (js ''En cours'')),
                           s_deadline = js_or (param params 3) (JStr []) \<rparr>
           in (s_id newTask, tasks @ [newTask]))
      | ShapeSetStatus \<Rightarrow>
          (let taskId = param params 1 in
           case find_index (\<lambda>t. JNum (s_id t) = taskId) tasks of
             Some i \<Rightarrow> (1, tasks[i := (tasks ! i)\<lparr> s_status := param params 0 \<rparr>])
           | None \<Rightarrow> (1, tasks))
      | ShapeSetDeadline \<Rightarrow>
          (let taskId = param params 1 in
           case find_index (\<lambda>t. JNum (s_id t) = taskId) tasks of
             Some i \<Rightarrow> (1, tasks[i := (tasks ! i)\<lparr> s_deadline := param params 0 \<rparr>])
           | None \<Rightarrow> (1, tasks))
      | ShapeOtherUpdate \<Rightarrow> (1, tasks)
      | ShapeDelete \<Rightarrow>
          (let ident = param params 0 in
           case find_index (\<lambda>t. JNum (s_id t) = ident) tasks of
             Some index \<Rightarrow> (1, take index tasks @ drop (Suc index) tasks)
           | None \<Rightarrow> (1, tasks))
      | ShapeNone \<Rightarrow> (1, tasks))"

text \<open>
  \<open>webDatabase.runAsync\<close>: read the whole collection, apply the mutation, write the whole
  collection back, and report. The returned object also carries a constant \<open>rows\<close>
  member, which no caller reads.
\<close>

definition web_runAsync :: "jsstring \<Rightarrow> jsval list \<Rightarrow> int \<Rightarrow> AsyncStorage \<Rightarrow> RunResult \<times> AsyncStorage" where
  "web_runAsync sql params now storage =
     (let tasks = getAllTasks storage;
          (ins, tasks') = web_mutate sql params now tasks
      in (\<lparr> rowsAffected = JNum 1, insertId = JNum ins \<rparr>, Some tasks'))"

section \<open>The statements the application issues (App.tsx)\<close>

definition sql_insert :: jsstring where
  "sql_insert = js ''INSERT INTO tasks (title, description, status, deadline) VALUES (?, ?, ?, ?)''"

definition sql_delete :: jsstring where
  "sql_delete = js ''DELETE FROM tasks WHERE id = ?''"

definition sql_set_status :: jsstring where
  "sql_set_status = js ''UPDATE tasks SET status = ? WHERE id = ?''"

definition sql_set_deadline :: jsstring where
  "sql_set_deadline = js ''UPDATE tasks SET deadline = ? WHERE id = ?''"

definition sql_select_all :: jsstring where
  "sql_select_all = js ''SELECT * FROM tasks''"

text \<open>The two status texts: \<open>En cours\<close> and \<open>Termin\<close> followed by e-acute (U+00E9).\<close>

definition str_en_cours :: jsstring where
  "str_en_cours = js ''En cours''"

definition str_termine :: jsstring where
  "str_termine = js ''Termin'' @ [233]"

text \<open>
  The four calls of the presentation layer: \<open>addTask\<close>, \<open>deleteTask\<close>,
  \<open>updateTaskStatus\<close> and \<open>updateTaskDeadline\<close>, with the arguments their TypeScript
  signatures give them.
\<close>

datatype op =
    Add jsstring jsstring jsstring "jsstring option"
  | Delete int
  | SetStatus int jsstring
  | SetDeadline int jsstring

text \<open>The statement text and parameter array each call passes to \<open>db.runAsync\<close>.\<close>

fun app_statement :: "op \<Rightarrow> jsstring \<times> jsval list" where
  "app_statement (Add title description status deadline) =
     (sql_insert,
      [JStr title, JStr description, js_or (JStr status) (JStr (js ''En cours'')),
       js_or (case deadline of None \<Rightarrow> JUndefined | Some d \<Rightarrow> JStr d) JNull])"
| "app_statement (Delete ident) = (sql_delete, [JNum ident])"
| "app_statement (SetStatus ident newStatus) = (sql_set_status, [JStr newStatus, JNum ident])"
| "app_statement (SetDeadline ident deadline) = (sql_set_deadline, [JStr deadline, JNum ident])"

section \<open>The relational backend (setupNativeDatabase)\<close>

text \<open>
  Modelled from the spec: the type \<open>SQLiteRunResult\<close> of what the engine's \<open>runAsync\<close>
  resolves to is declared by the engine's library, not in the repository. Section 4.2 of
  the specification names its two members the engine's change-count and
  last-inserted-row-id; both are numbers.
\<close>

record SQLiteRunResult =
  changes :: int
  lastInsertRowId :: int

text \<open>
  The engine handle \<open>db\<close> that \<open>SQLite.openDatabaseAsync\<close> returns, over a database state
  of type \<open>'db\<close>. A rejected promise is \<open>Inl\<close>. The row that \<open>getFirstAsync\<close> returns for
  the column probe is modelled by its \<open>name\<close> member, \<open>None\<close> standing for \<open>null\<close> (no row).
\<close>

record 'db SQLiteDatabase =
  db_execAsync :: "jsstring \<Rightarrow> 'db \<Rightarrow> (js_error + unit) \<times> 'db"
  db_getFirstAsync :: "jsstring \<Rightarrow> jsval list \<Rightarrow> 'db \<Rightarrow> js_error + jsstring option"
  db_getAllAsync :: "jsstring \<Rightarrow> jsval list \<Rightarrow> 'db \<Rightarrow> js_error + StoredTask list"
  db_runAsync :: "jsstring \<Rightarrow> jsval list \<Rightarrow> 'db \<Rightarrow> (js_error + SQLiteRunResult) \<times> 'db"

text \<open>The statement texts of \<open>setupNativeDatabase\<close> (the first one without its line breaks;
  39 is the code unit of the single quote).\<close>

definition sql_create_table :: jsstring where
  "sql_create_table = js ''CREATE TABLE IF NOT EXISTS tasks (id INTEGER PRIMARY KEY AUTOINCREMENT, title TEXT, description TEXT, status TEXT, deadline TEXT);''"

definition sql_probe :: jsstring where
  "sql_probe = js ''SELECT name FROM pragma_table_info('' @ [39] @ js ''tasks'' @ [39] @ js '') WHERE name = ?''"

definition sql_alter :: jsstring where
  "sql_alter = js ''ALTER TABLE tasks ADD COLUMN deadline TEXT''"

text \<open>
  \<open>setupNativeDatabase\<close> up to its \<open>return\<close>: create the table if it does not exist, probe
  for the deadline column, and alter the table in the \<open>catch\<close> branch of the probe.
  An error outside the \<open>try\<close> rejects the whole call.
\<close>

definition setupNativeDatabase :: "'db SQLiteDatabase \<Rightarrow> 'db \<Rightarrow> (js_error + unit) \<times> 'db" where
  "setupNativeDatabase db s0 =
     (case db_execAsync db sql_create_table s0 of
        (Inl e, s1) \<Rightarrow> (Inl e, s1)
      | (Inr _, s1) \<Rightarrow>
          (case db_getFirstAsync db sql_probe [JStr (js ''deadline'')] s1 of
             Inr _ \<Rightarrow> (Inr (), s1)
           | Inl error \<Rightarrow>
               (case db_execAsync db sql_alter s1 of
                  (Inl e, s2) \<Rightarrow> (Inl e, s2)
                | (Inr _, s2) \<Rightarrow> (Inr (), s2))))"

text \<open>
  The returned handle's \<open>getAllAsync\<close>: a failure of the engine is caught and an empty
  array is returned. (The \<open>console.error\<close> calls of both wrappers are not modelled.)
\<close>

definition native_getAllAsync :: "'db SQLiteDatabase \<Rightarrow> jsstring \<Rightarrow> jsval list \<Rightarrow> 'db \<Rightarrow> js_error + StoredTask list" where
  "native_getAllAsync db sql params s =
     (case db_getAllAsync db sql params s of
        Inr rows \<Rightarrow> Inr rows
      | Inl error \<Rightarrow> Inr [])"

text \<open>
  \<open>v?.length\<close>: \<open>undefined\<close> when \<open>v\<close> is \<open>null\<close> or \<open>undefined\<close>; a string has a length;
  a number or boolean has no such property, so the access gives \<open>undefined\<close>.
\<close>

fun opt_length :: "jsval \<Rightarrow> jsval" where
  "opt_length (JStr s) = JNum (int (length s))"
| "opt_length v = JUndefined"

text \<open>The returned handle's \<open>runAsync\<close>: the result is reshaped, a failure is thrown again.\<close>

definition native_runAsync :: "'db SQLiteDatabase \<Rightarrow> jsstring \<Rightarrow> jsval list \<Rightarrow> 'db \<Rightarrow> (js_error + RunResult) \<times> 'db" where
  "native_runAsync db sql params s =
     (case db_runAsync db sql params s of
        (Inr result, s') \<Rightarrow>
          (Inr \<lparr> rowsAffected = js_or (opt_length (JNum (changes result))) (JNum 0),
                 insertId = js_or (JNum (lastInsertRowId result)) (JNum 0) \<rparr>, s')
      | (Inl error, s') \<Rightarrow> (Inl error, s'))"

section \<open>The embedded SQL engine\<close>

text \<open>
  The state of the database file \<open>tasks.db\<close>: the columns of the table \<open>tasks\<close> (\<open>None\<close>
  when the table does not exist), its rows in rowid order, the AUTOINCREMENT sequence
  (the largest rowid ever assigned) and the connection's last inserted rowid. A row of
  a table without the deadline column has no such member (\<open>JUndefined\<close>).
\<close>

record sqlite_db =
  tbl_columns :: "jsstring list option"
  tbl_rows :: "StoredTask list"
  tbl_seq :: int
  conn_last_rowid :: int

definition all_columns :: "jsstring list" where
  "all_columns = [js ''id'', js ''title'', js ''description'', js ''status'', js ''deadline'']"

definition not_modelled :: js_error where
  "not_modelled = SQLiteError ''statement outside the model''"

text \<open>
  Modelled from the spec: the embedded SQL engine (the expo-sqlite library behind
  \<open>db.execAsync\<close>, \<open>db.getFirstAsync\<close>, \<open>db.getAllAsync\<close> and \<open>db.runAsync\<close>) is not part
  of the repository's sources. The model covers the statements the repository issues, on
  the single table of section 6 of the specification
  (\<open>tasks(id INTEGER PRIMARY KEY AUTOINCREMENT, title TEXT, description TEXT, status TEXT, deadline TEXT)\<close>),
  with the meaning SQL gives them: CREATE TABLE IF NOT EXISTS creates the table only when
  it is missing; ALTER TABLE ADD COLUMN fails when the table is missing or the column
  exists, and otherwise adds the column with NULL in every row; the table-valued
  \<open>pragma_table_info\<close> has one row per column, so the probe returns the row of the named
  column or no row at all, and does not fail.
\<close>

definition sqlite_execAsync :: "jsstring \<Rightarrow> sqlite_db \<Rightarrow> (js_error + unit) \<times> sqlite_db" where
  "sqlite_execAsync sql s =
     (if sql = sql_create_table then
        (case tbl_columns s of
           None \<Rightarrow> (Inr (), s\<lparr> tbl_columns := Some all_columns \<rparr>)
         | Some cols \<Rightarrow> (Inr (), s))
      else if sql = sql_alter then
        (case tbl_columns s of
           None \<Rightarrow> (Inl (SQLiteError ''no such table: tasks''), s)
         | Some cols \<Rightarrow>
             if js ''deadline'' \<in> set cols
             then (Inl (SQLiteError ''duplicate column name: deadline''), s)
             else (Inr (), s\<lparr> tbl_columns := Some (cols @ [js ''deadline'']),
                                tbl_rows := map (\<lambda>r. r\<lparr> s_deadline := JNull \<rparr>) (tbl_rows s) \<rparr>))
      else (Inl not_modelled, s))"

text \<open>
  Modelled from the spec: the engine's \<open>getFirstAsync\<close> on the column probe, with the
  column name as its one parameter; \<open>pragma_table_info\<close> of a table that does not exist
  has no rows.
\<close>

definition sqlite_getFirstAsync :: "jsstring \<Rightarrow> jsval list \<Rightarrow> sqlite_db \<Rightarrow> js_error + jsstring option" where
  "sqlite_getFirstAsync sql params s =
     (if sql = sql_probe then
        (case params of
           [JStr name] \<Rightarrow>
             (case tbl_columns s of
                None \<Rightarrow> Inr None
              | Some cols \<Rightarrow> Inr (if name \<in> set cols then Some name else None))
         | _ \<Rightarrow> Inl not_modelled)
      else Inl not_modelled)"

text \<open>
  Modelled from the spec: the engine's \<open>getAllAsync\<close> on the one query of the
  application, which returns every row of the table.
\<close>

definition sqlite_getAllAsync :: "jsstring \<Rightarrow> jsval list \<Rightarrow> sqlite_db \<Rightarrow> js_error + StoredTask list" where
  "sqlite_getAllAsync sql params s =
     (if sql = sql_select_all then
        (case tbl_columns s of
           None \<Rightarrow> Inl (SQLiteError ''no such table: tasks'')
         | Some cols \<Rightarrow> Inr (tbl_rows s))
      else Inl not_modelled)"

text \<open>A value bound to a TEXT column: the model covers strings and NULL, stored as they are.\<close>

fun text_value :: "jsval \<Rightarrow> bool" where
  "text_value (JStr s) = True"
| "text_value JNull = True"
| "text_value v = False"

text \<open>
  Modelled from the spec: the engine's \<open>runAsync\<close> on the four statements of the
  application. INSERT appends a row whose id is one more than the largest rowid ever
  assigned (AUTOINCREMENT; section 3 of the specification: the relational backend assigns
  the id via auto-increment); UPDATE and DELETE act on every row whose id equals the
  parameter. \<open>changes\<close> counts the rows written or removed.
\<close>

definition sqlite_runAsync :: "jsstring \<Rightarrow> jsval list \<Rightarrow> sqlite_db \<Rightarrow> (js_error + SQLiteRunResult) \<times> sqlite_db" where
  "sqlite_runAsync sql params s =
     (case tbl_columns s of
        None \<Rightarrow> (Inl (SQLiteError ''no such table: tasks''), s)
      | Some cols \<Rightarrow>
          if sql = sql_insert then
            (case params of
               [t, d, st, dl] \<Rightarrow>
                 if \<not> set [js ''title'', js ''description'', js ''status'', js ''deadline''] \<subseteq> set cols
                 then (Inl (SQLiteError ''table tasks has no such column''), s)
                 else if text_value t \<and> text_value d \<and> text_value st \<and> text_value dl then
                   (let rowid = fold max (map s_id (tbl_rows s)) (tbl_seq s) + 1;
                        row = \<lparr> s_id = rowid, s_title = t, s_description = d, s_status = st,
                                s_deadline = dl \<rparr>
                    in (Inr \<lparr> changes = 1, lastInsertRowId = rowid \<rparr>,
                        s\<lparr> tbl_rows := tbl_rows s @ [row], tbl_seq := rowid,
                           conn_last_rowid := rowid \<rparr>))
                 else (Inl not_modelled, s)
             | _ \<Rightarrow> (Inl not_modelled, s))
          else if sql = sql_delete then
            (case params of
               [JNum i] \<Rightarrow>
                 (Inr \<lparr> changes = int (length (filter (\<lambda>r. s_id r = i) (tbl_rows s))),
                        lastInsertRowId = conn_last_rowid s \<rparr>,
                  s\<lparr> tbl_rows := filter (\<lambda>r. s_id r \<noteq> i) (tbl_rows s) \<rparr>)
             | _ \<Rightarrow> (Inl not_modelled, s))
          else if sql = sql_set_status then
            (case params of
               [v, JNum i] \<Rightarrow>
                 if \<not> js ''status'' \<in> set cols then (Inl (SQLiteError ''no such column: status''), s)
                 else if text_value v then
                   (Inr \<lparr> changes = int (length (filter (\<lambda>r. s_id r = i) (tbl_rows s))),
                          lastInsertRowId = conn_last_rowid s \<rparr>,
                    s\<lparr> tbl_rows := map (\<lambda>r. if s_id r = i then r\<lparr> s_status := v \<rparr> else r) (tbl_rows s) \<rparr>)
                 else (Inl not_modelled, s)
             | _ \<Rightarrow> (Inl not_modelled, s))
          else if sql = sql_set_deadline then
            (case params of
               [v, JNum i] \<Rightarrow>
                 if \<not> js ''deadline'' \<in> set cols then (Inl (SQLiteError ''no such column: deadline''), s)
                 else if text_value v then
                   (Inr \<lparr> changes = int (length (filter (\<lambda>r. s_id r = i) (tbl_rows s))),
                          lastInsertRowId = conn_last_rowid s \<rparr>,
                    s\<lparr> tbl_rows := map (\<lambda>r. if s_id r = i then r\<lparr> s_deadline := v \<rparr> else r) (tbl_rows s) \<rparr>)
                 else (Inl not_modelled, s)
             | _ \<Rightarrow> (Inl not_modelled, s))
          else (Inl not_modelled, s))"

definition sqlite :: "sqlite_db SQLiteDatabase" where
  "sqlite = \<lparr> db_execAsync = sqlite_execAsync, db_getFirstAsync = sqlite_getFirstAsync,
              db_getAllAsync = sqlite_getAllAsync, db_runAsync = sqlite_runAsync \<rparr>"

text \<open>A database file that was never written, and one a version without deadlines left behind.\<close>

definition fresh_db :: sqlite_db where
  "fresh_db = \<lparr> tbl_columns = None, tbl_rows = [], tbl_seq = 0, conn_last_rowid = 0 \<rparr>"

definition legacy_db :: sqlite_db where
  "legacy_db =
     \<lparr> tbl_columns = Some [js ''id'', js ''title'', js ''description'', js ''status''],
       tbl_rows = [\<lparr> s_id = 1, s_title = JStr (js ''Buy milk''), s_description = JStr [],
                     s_status = JStr str_en_cours, s_deadline = JUndefined \<rparr>],
       tbl_seq = 1, conn_last_rowid = 0 \<rparr>"

section \<open>Sequences of calls on either backend\<close>

text \<open>
  \<open>openDatabase\<close> on the web: an empty or missing collection is written as the empty array.
\<close>

definition web_open :: "AsyncStorage \<Rightarrow> AsyncStorage" where
  "web_open storage = (if length (web_getAllAsync storage) = 0 then Some [] else storage)"

text \<open>
  One call of the presentation layer on the key-value backend, with the clock reading of
  that moment. The reload that follows reads the collection and changes nothing.
\<close>

definition web_apply :: "int \<times> op \<Rightarrow> AsyncStorage \<Rightarrow> AsyncStorage" where
  "web_apply c storage =
     (case app_statement (snd c) of (sql, params) \<Rightarrow> snd (web_runAsync sql params (fst c) storage))"

definition web_run :: "(int \<times> op) list \<Rightarrow> AsyncStorage \<Rightarrow> AsyncStorage" where
  "web_run cs storage = fold web_apply cs storage"

text \<open>
  One call on the relational backend; an error thrown by \<open>runAsync\<close> is caught by the
  caller's \<open>try\<close>, which leaves the database as the engine left it.
\<close>

definition native_apply :: "op \<Rightarrow> sqlite_db \<Rightarrow> sqlite_db" where
  "native_apply c s =
     (case app_statement c of (sql, params) \<Rightarrow> snd (native_runAsync sqlite sql params s))"

definition native_run :: "op list \<Rightarrow> sqlite_db \<Rightarrow> sqlite_db" where
  "native_run cs s = fold native_apply cs s"

text \<open>The reload \<open>db.getAllAsync('SELECT * FROM tasks')\<close> of the relational backend.\<close>

definition native_tasks :: "sqlite_db \<Rightarrow> StoredTask list" where
  "native_tasks s =
     (case native_getAllAsync sqlite sql_select_all [] s of Inr rows \<Rightarrow> rows | Inl e \<Rightarrow> [])"

text \<open>
  The two backends choose ids on their own: the key-value backend takes the clock
  reading, the relational one the next rowid. \<open>stamps\<close> lists the clock readings of the
  insertions of a run; \<open>rowid_of\<close> sends the k-th of them to the rowid \<open>k\<close> that the
  relational backend gives the k-th insertion into a new table, and every other number
  to 0, which is no rowid.
\<close>

fun stamps :: "(int \<times> op) list \<Rightarrow> int list" where
  "stamps [] = []"
| "stamps ((now, Add t d st dl) # cs) = now # stamps cs"
| "stamps ((now, c) # cs) = stamps cs"

definition rowid_of :: "int list \<Rightarrow> int \<Rightarrow> int" where
  "rowid_of ss i = (case find_index (\<lambda>s. s = i) ss of None \<Rightarrow> 0 | Some k \<Rightarrow> int k + 1)"

fun rename_op :: "(int \<Rightarrow> int) \<Rightarrow> op \<Rightarrow> op" where
  "rename_op f (Add t d st dl) = Add t d st dl"
| "rename_op f (Delete i) = Delete (f i)"
| "rename_op f (SetStatus i v) = SetStatus (f i) v"
| "rename_op f (SetDeadline i v) = SetDeadline (f i) v"

definition rename_task :: "(int \<Rightarrow> int) \<Rightarrow> StoredTask \<Rightarrow> StoredTask" where
  "rename_task f t = t\<lparr> s_id := f (s_id t) \<rparr>"

text \<open>A NULL deadline read as the empty string.\<close>

definition null_as_empty :: "StoredTask \<Rightarrow> StoredTask" where
  "null_as_empty t = (if s_deadline t = JNull then t\<lparr> s_deadline := JStr [] \<rparr> else t)"

text \<open>
  The correspondence between the two backends after the first \<open>n\<close> insertions of a run
  whose insertions read the clock values \<open>ss\<close>: the table has all its columns, its
  sequence stands at \<open>n\<close>, the stored ids are distinct and among the first \<open>n\<close> clock
  readings, and task by task the stored collection, with its ids renamed, is the table
  with NULL deadlines read as empty strings.
\<close>

definition related :: "int list \<Rightarrow> nat \<Rightarrow> StoredTask list \<Rightarrow> sqlite_db \<Rightarrow> bool" where
  "related ss n ts s \<longleftrightarrow>
     n \<le> length ss \<and> tbl_columns s = Some all_columns \<and> tbl_seq s = int n \<and>
     set (map s_id ts) \<subseteq> set (take n ss) \<and> distinct (map s_id ts) \<and>
     list_all2 (\<lambda>t r. s_id t \<in> set ss \<and> rename_task (rowid_of ss) t = null_as_empty r)
       ts (tbl_rows s)"

section \<open>Example data\<close>

definition two_tasks :: "StoredTask list" where
  "two_tasks =
     [\<lparr> s_id = 1700000000001, s_title = JStr (js ''Buy milk''), s_description = JStr [],
        s_status = JStr str_en_cours, s_deadline = JStr [] \<rparr>,
      \<lparr> s_id = 1700000000002, s_title = JStr (js ''Call Bob''), s_description = JStr (js ''soon''),
        s_status = JStr str_en_cours, s_deadline = JStr (js ''2024-01-05'') \<rparr>]"

definition example_script :: "(int \<times> op) list" where
  "example_script =
     [(1700000000001, Add (js ''Buy milk'') [] str_en_cours None),
      (1700000000002, Add (js ''Call Bob'') (js ''soon'') [] (Some (js ''2024-01-05''))),
      (1700000000003, SetStatus 1700000000002 str_termine),
      (1700000000004, SetDeadline 1700000000002 (js ''2024-03-01'')),
      (1700000000005, Delete 1700000000001),
      (1700000000006, Delete 42)]"

definition clash_script :: "(int \<times> op) list" where
  "clash_script =
     [(1700000000001, Add (js ''Buy milk'') [] str_en_cours None),
      (1700000000001, Add (js ''Call Bob'') [] str_en_cours None),
      (1700000000002, Delete 1700000000001),
      (1700000000003, Delete 1700000000001)]"

section \<open>The task list (TaskList.tsx)\<close>

text \<open>
  The task type of the component: \<open>status\<close> is one of the two string literals of
  \<open>TaskStatus\<close>; \<open>deadline\<close> is optional, \<open>None\<close> standing for \<open>undefined\<close> or \<open>null\<close>.
\<close>

datatype TaskStatus = EnCours | Termine

definition status_text :: "TaskStatus \<Rightarrow> jsstring" where
  "status_text s = (case s of EnCours \<Rightarrow> str_en_cours | Termine \<Rightarrow> str_termine)"

record Task =
  task_id :: int
  title :: jsstring
  description :: jsstring
  status :: TaskStatus
  deadline :: "jsstring option"

text \<open>
  What the component takes from the JavaScript runtime: the Unicode operations on
  strings, the parsing and rendering of dates, and the collation of strings. A date is
  its time value (milliseconds since the epoch); \<open>parseDate s\<close> is
  \<open>new Date(s).getTime()\<close>, with \<open>None\<close> for \<open>NaN\<close>. \<open>toLocaleDateString\<close> is the call
  with the locale \<open>fr-FR\<close> and the options of \<open>formatDate\<close>.
\<close>

record runtime =
  toLowerCase :: "jsstring \<Rightarrow> jsstring"
  normalizeNFD :: "jsstring \<Rightarrow> jsstring"
  parseDate :: "jsstring \<Rightarrow> int option"
  getDate :: "int \<Rightarrow> int"
  getMonth :: "int \<Rightarrow> int"
  getFullYear :: "int \<Rightarrow> int"
  toLocaleDateString :: "int \<Rightarrow> jsstring"
  toISOString :: "int \<Rightarrow> jsstring"
  localeCompare :: "jsstring \<Rightarrow> jsstring \<Rightarrow> int"

text \<open>
  \<open>String.prototype.trim\<close> removes the white space and line terminators of ECMAScript
  from both ends.
\<close>

definition is_whitespace :: "nat \<Rightarrow> bool" where
  "is_whitespace c \<longleftrightarrow>
     c \<in> set [9, 10, 11, 12, 13, 32, 160, 5760, 8232, 8233, 8239, 8287, 12288, 65279]
     \<or> (8192 \<le> c \<and> c \<le> 8202)"

definition trim :: "jsstring \<Rightarrow> jsstring" where
  "trim s = rev (dropWhile is_whitespace (rev (dropWhile is_whitespace s)))"

text \<open>\<open>.replace(/[u0300-u036f]/g, '')\<close>: the combining marks U+0300 to U+036F are removed.\<close>

definition strip_marks :: "jsstring \<Rightarrow> jsstring" where
  "strip_marks s = filter (\<lambda>c. \<not> (768 \<le> c \<and> c \<le> 879)) s"

text \<open>\<open>s.toLowerCase().normalize('NFD').replace(/[u0300-u036f]/g, '')\<close>.\<close>

definition normalize_text :: "runtime \<Rightarrow> jsstring \<Rightarrow> jsstring" where
  "normalize_text rt s = strip_marks (normalizeNFD rt (toLowerCase rt s))"

text \<open>\<open>/^\d+$/.test(s)\<close>: one or more ASCII digits and nothing else.\<close>

definition all_digits :: "jsstring \<Rightarrow> bool" where
  "all_digits s \<longleftrightarrow> s \<noteq> [] \<and> list_all (\<lambda>c. 48 \<le> c \<and> c \<le> 57) s"

text \<open>\<open>String(n)\<close> of an integer, \<open>.padStart(2, '0')\<close>, and \<open>.split('T')[0]\<close>.\<close>

fun decimal_nat :: "nat \<Rightarrow> jsstring" where
  "decimal_nat n = (if n < 10 then [48 + n] else decimal_nat (n div 10) @ [48 + n mod 10])"

declare decimal_nat.simps [simp del]

definition decimal :: "int \<Rightarrow> jsstring" where
  "decimal i = (if i < 0 then 45 # decimal_nat (nat (- i)) else decimal_nat (nat i))"

definition padStart2 :: "jsstring \<Rightarrow> jsstring" where
  "padStart2 s = replicate (2 - length s) 48 @ s"

definition before_T :: "jsstring \<Rightarrow> jsstring" where
  "before_T s = takeWhile (\<lambda>c. c \<noteq> 84) s"

text \<open>\<open>task.deadline\<close> as a condition: a string that is not empty.\<close>

definition has_deadline :: "Task \<Rightarrow> bool" where
  "has_deadline task = (case deadline task of None \<Rightarrow> False | Some d \<Rightarrow> d \<noteq> [])"

text \<open>
  \<open>formatDate\<close> (the module's and the component's are the same function). 233 is the
  code unit of e-acute.
\<close>

definition formatDate :: "runtime \<Rightarrow> jsstring option \<Rightarrow> jsstring" where
  "formatDate rt dateString =
     (case dateString of
        None \<Rightarrow> js ''Aucune date d'' @ [233] @ js ''finie''
      | Some s \<Rightarrow>
          if s = [] then js ''Aucune date d'' @ [233] @ js ''finie''
          else (case parseDate rt s of
                  None \<Rightarrow> js ''Date invalide''
                | Some date \<Rightarrow> toLocaleDateString rt date))"

subsection \<open>The identifiers the filter can read\<close>

text \<open>
  The callback of the first \<open>useMemo\<close> runs while the component function is being
  evaluated, at the call of \<open>useMemo\<close>. The names it can resolve are the module's imports
  and declarations, the component's parameters and the constants declared above the
  call, and its own locals. The component declares its constant \<open>formatDate\<close> below the
  call, so that binding, which hides the module's \<open>formatDate\<close>, is not yet initialised
  when the callback runs. No declaration of the name \<open>query\<close> exists in the file.
  Reading a name that is not declared, or not yet initialised, throws.
\<close>

datatype binding = Uninitialised | StringValue jsstring | OtherValue

definition memo_scope :: "jsstring \<Rightarrow> jsstring \<Rightarrow> jsstring \<Rightarrow> (string \<times> binding) list" where
  "memo_scope searchQuery trimmedQuery normalizedQuery =
     [(''task'', OtherValue),
      (''normalizedQuery'', StringValue normalizedQuery),
      (''trimmedQuery'', StringValue trimmedQuery),
      (''tasks'', OtherValue), (''onDelete'', OtherValue), (''onUpdateStatus'', OtherValue),
      (''onUpdateDeadline'', OtherValue),
      (''searchQuery'', StringValue searchQuery), (''setSearchQuery'', OtherValue),
      (''sortBy'', OtherValue), (''setSortBy'', OtherValue),
      (''sortOrder'', OtherValue), (''setSortOrder'', OtherValue),
      (''error'', OtherValue), (''setError'', OtherValue),
      (''promptForDate'', OtherValue),
      (''filteredTasks'', Uninitialised), (''sortedTasks'', Uninitialised),
      (''toggleSortOrder'', Uninitialised), (''formatDate'', Uninitialised),
      (''TaskList'', OtherValue), (''styles'', OtherValue)]"

definition resolve :: "(string \<times> binding) list \<Rightarrow> string \<Rightarrow> js_error + binding" where
  "resolve scope name =
     (case map_of scope name of
        None \<Rightarrow> Inl ReferenceError
      | Some Uninitialised \<Rightarrow> Inl ReferenceError
      | Some b \<Rightarrow> Inr b)"

subsection \<open>filteredTasks\<close>

text \<open>
  The body of the inner \<open>try\<close> of the filter, for a task with a deadline: \<open>Inr True\<close> when
  it returns \<open>true\<close>, \<open>Inr False\<close> when it ends without returning, \<open>Inl\<close> when it throws.
  The argument of \<open>includes\<close> is read as a search string; the scope of the callback
  binds no other kind of value to a name read here, and the model gives an error there.
\<close>

definition date_match_try :: "runtime \<Rightarrow> (string \<times> binding) list \<Rightarrow> Task \<Rightarrow> js_error + bool" where
  "date_match_try rt scope task =
     (case resolve scope ''formatDate'' of
        Inl e \<Rightarrow> Inl e
      | Inr f \<Rightarrow>
          (let formattedDate = toLowerCase rt (formatDate rt (deadline task)) in
           case resolve scope ''query'' of
             Inl e \<Rightarrow> Inl e
           | Inr (StringValue query) \<Rightarrow>
               if str_includes formattedDate query then Inr True
               else (case parseDate rt (the (deadline task)) of
                       Some date \<Rightarrow>
                         (let isoDate = before_T (toISOString rt date) in
                          if str_includes isoDate query then Inr True else Inr False)
                     | None \<Rightarrow> Inr False)
           | Inr b \<Rightarrow> Inl TypeError))"

text \<open>The callback of \<open>tasks.filter\<close>.\<close>

definition task_matches :: "runtime \<Rightarrow> (string \<times> binding) list \<Rightarrow> jsstring \<Rightarrow> Task \<Rightarrow> bool" where
  "task_matches rt scope normalizedQuery task =
     (let normalizedStatus = normalize_text rt (status_text (status task)) in
      if str_includes normalizedStatus normalizedQuery then True
      else if str_includes (toLowerCase rt (title task)) normalizedQuery \<or>
              str_includes (toLowerCase rt (description task)) normalizedQuery then True
      else if all_digits normalizedQuery then
        (if has_deadline task then
           (case parseDate rt (the (deadline task)) of
              None \<Rightarrow> False
            | Some date \<Rightarrow>
                (let day = padStart2 (decimal (getDate rt date));
                     month = padStart2 (decimal (getMonth rt date + 1));
                     year = getFullYear rt date
                 in if str_includes day normalizedQuery \<or> str_includes month normalizedQuery \<or>
                       str_includes (decimal year) normalizedQuery
                    then True else False))
         else False)
      else if has_deadline task then
        (case date_match_try rt scope task of
           Inr True \<Rightarrow> True
         | Inr False \<Rightarrow> False
         | Inl error \<Rightarrow> False)
      else False)"

text \<open>
  \<open>filteredTasks\<close>. With tasks of the declared type nothing outside the inner \<open>try\<close>
  throws, so the outer \<open>catch\<close> is not entered.
\<close>

definition filteredTasks :: "runtime \<Rightarrow> jsstring \<Rightarrow> Task list \<Rightarrow> Task list" where
  "filteredTasks rt searchQuery tasks =
     (let trimmedQuery = trim searchQuery in
      if trimmedQuery = [] then tasks
      else
        (let normalizedQuery = normalize_text rt trimmedQuery in
         filter (task_matches rt (memo_scope searchQuery trimmedQuery normalizedQuery) normalizedQuery)
           tasks))"

subsection \<open>sortedTasks\<close>

datatype SortBy = ByStatus | ByDeadline

datatype SortOrder = Asc | Desc

text \<open>
  The numbers the comparator handles: time values and results of \<open>localeCompare\<close> (integers),
  the infinities and \<open>NaN\<close>. The difference of two time values is modelled exactly;
  the rounding of the floating-point subtraction changes neither its sign nor whether
  it is zero, which is all that sorting reads.
\<close>

datatype jsnum = Finite int | PosInf | NegInf | NaN

fun js_minus :: "jsnum \<Rightarrow> jsnum \<Rightarrow> jsnum" where
  "js_minus NaN y = NaN"
| "js_minus x NaN = NaN"
| "js_minus (Finite a) (Finite b) = Finite (a - b)"
| "js_minus (Finite a) PosInf = NegInf"
| "js_minus (Finite a) NegInf = PosInf"
| "js_minus PosInf PosInf = NaN"
| "js_minus PosInf y = PosInf"
| "js_minus NegInf NegInf = NaN"
| "js_minus NegInf y = NegInf"

text \<open>\<open>a.deadline ? new Date(a.deadline).getTime() : Infinity\<close>.\<close>

definition deadline_time :: "runtime \<Rightarrow> Task \<Rightarrow> jsnum" where
  "deadline_time rt task =
     (if has_deadline task
      then (case parseDate rt (the (deadline task)) of Some t \<Rightarrow> Finite t | None \<Rightarrow> NaN)
      else PosInf)"

text \<open>The comparator passed to \<open>sort\<close>.\<close>

definition compareTasks :: "runtime \<Rightarrow> SortBy \<Rightarrow> SortOrder \<Rightarrow> Task \<Rightarrow> Task \<Rightarrow> jsnum" where
  "compareTasks rt sortBy sortOrder a b =
     (if sortBy = ByStatus then
        (if sortOrder = Asc
         then Finite (localeCompare rt (status_text (status a)) (status_text (status b)))
         else Finite (localeCompare rt (status_text (status b)) (status_text (status a))))
      else
        (let dateA = deadline_time rt a; dateB = deadline_time rt b
         in if sortOrder = Asc then js_minus dateA dateB else js_minus dateB dateA))"

text \<open>
  \<open>Array.prototype.sort\<close> with a comparator. The language (since ECMAScript 2019)
  specifies a stable sort that reads the comparator's result by its sign, \<open>NaN\<close>
  counting as zero. For a comparator that orders the elements consistently the
  result is thereby fixed: the arrangement that is ordered by the comparator and keeps
  the input order among elements that compare as equal. Inserting the elements from
  the right, each before the first element it is not greater than, computes it.
\<close>

fun positive :: "jsnum \<Rightarrow> bool" where
  "positive (Finite n) = (0 < n)"
| "positive PosInf = True"
| "positive NegInf = False"
| "positive NaN = False"

fun insert_sorted :: "('a \<Rightarrow> 'a \<Rightarrow> jsnum) \<Rightarrow> 'a \<Rightarrow> 'a list \<Rightarrow> 'a list" where
  "insert_sorted cmp x [] = [x]"
| "insert_sorted cmp x (y # ys) =
     (if positive (cmp x y) then y # insert_sorted cmp x ys else x # y # ys)"

definition array_sort :: "('a \<Rightarrow> 'a \<Rightarrow> jsnum) \<Rightarrow> 'a list \<Rightarrow> 'a list" where
  "array_sort cmp xs = foldr (insert_sorted cmp) xs []"

definition sortedTasks :: "runtime \<Rightarrow> SortBy \<Rightarrow> SortOrder \<Rightarrow> Task list \<Rightarrow> Task list" where
  "sortedTasks rt sortBy sortOrder filtered = array_sort (compareTasks rt sortBy sortOrder) filtered"

text \<open>
  The sort keys that the deadline comparator induces when no deadline is unparseable:
  ascending, the dated tasks by time before the undated ones; descending, the undated
  tasks before the dated ones by falling time.
\<close>

definition key_asc :: "runtime \<Rightarrow> Task \<Rightarrow> nat \<times> int" where
  "key_asc rt t = (case deadline_time rt t of Finite v \<Rightarrow> (0, v) | _ \<Rightarrow> (1, 0))"

definition key_desc :: "runtime \<Rightarrow> Task \<Rightarrow> nat \<times> int" where
  "key_desc rt t = (case deadline_time rt t of Finite v \<Rightarrow> (1, - v) | _ \<Rightarrow> (0, 0))"

section \<open>A runtime and tasks to compute with\<close>

text \<open>
  A runtime for concrete computations. Its string operations are those of Unicode on
  ASCII and on the accented lower-case letters of French; it knows the two dates of the
  scenario in section 8 of the specification, read in UTC; it collates by code unit.
\<close>

definition lower_unit :: "nat \<Rightarrow> nat" where
  "lower_unit c = (if (65 \<le> c \<and> c \<le> 90) \<or> (192 \<le> c \<and> c \<le> 222 \<and> c \<noteq> 215) then c + 32 else c)"

definition decompose_unit :: "nat \<Rightarrow> nat list" where
  "decompose_unit c =
     (if c = 224 then [97, 768] else if c = 226 then [97, 770]
      else if c = 231 then [99, 807]
      else if c = 232 then [101, 768] else if c = 233 then [101, 769]
      else if c = 234 then [101, 770] else if c = 235 then [101, 776]
      else if c = 238 then [105, 770] else if c = 239 then [105, 776]
      else if c = 244 then [111, 770]
      else if c = 249 then [117, 768] else if c = 251 then [117, 770]
      else if c = 252 then [117, 776]
      else [c])"

fun compare_units :: "nat list \<Rightarrow> nat list \<Rightarrow> int" where
  "compare_units [] [] = 0"
| "compare_units [] (y # ys) = - 1"
| "compare_units (x # xs) [] = 1"
| "compare_units (x # xs) (y # ys) =
     (if x < y then - 1 else if y < x then 1 else compare_units xs ys)"

definition sample_runtime :: runtime where
  "sample_runtime =
     \<lparr> toLowerCase = map lower_unit,
       normalizeNFD = (\<lambda>s. concat (map decompose_unit s)),
       parseDate = (\<lambda>s. if s = js ''2024-01-05'' then Some 1704412800000
                         else if s = js ''2024-03-01'' then Some 1709251200000 else None),
       getDate = (\<lambda>t. if t = 1704412800000 then 5 else 1),
       getMonth = (\<lambda>t. if t = 1704412800000 then 0 else 2),
       getFullYear = (\<lambda>t. 2024),
       toLocaleDateString = (\<lambda>t. if t = 1704412800000 then js ''05/01/2024 00:00''
                                  else js ''01/03/2024 00:00''),
       toISOString = (\<lambda>t. if t = 1704412800000 then js ''2024-01-05T00:00:00.000Z''
                           else js ''2024-03-01T00:00:00.000Z''),
       localeCompare = compare_units \<rparr>"

definition task_milk :: Task where
  "task_milk = \<lparr> task_id = 1, title = js ''Buy milk'', description = [], status = EnCours,
                 deadline = Some (js ''2024-01-05'') \<rparr>"

definition task_report :: Task where
  "task_report = \<lparr> task_id = 2, title = js ''Terminer le rapport'', description = js ''avant lundi'',
                   status = EnCours, deadline = None \<rparr>"

definition task_done :: Task where
  "task_done = \<lparr> task_id = 3, title = js ''Call Bob'', description = [], status = Termine,
                 deadline = Some (js ''2024-03-01'') \<rparr>"

section \<open>Properties of the key-value backend\<close>

lemma find_index_None_iff: "find_index p xs = None \<longleftrightarrow> list_all (\<lambda>x. \<not> p x) xs"
  by (induction xs) auto

lemma find_index_Some_lt: "find_index p xs = Some i \<Longrightarrow> i < length xs"
  by (induction xs arbitrary: i) (auto split: if_splits)

lemma find_index_Some_sat: "find_index p xs = Some i \<Longrightarrow> p (xs ! i)"
  by (induction xs arbitrary: i) (auto split: if_splits)

lemma find_index_Some_first: "find_index p xs = Some i \<Longrightarrow> j < i \<Longrightarrow> \<not> p (xs ! j)"
proof (induction xs arbitrary: i j)
  case Nil
  then show ?case by simp
next
  case (Cons x xs)
  show ?case
  proof (cases "p x")
    case True
    with Cons.prems show ?thesis by simp
  next
    case False
    with Cons.prems obtain k where k: "find_index p xs = Some k" "i = Suc k"
      by auto
    show ?thesis
    proof (cases j)
      case 0
      with False show ?thesis by simp
    next
      case (Suc m)
      with Cons.prems k have "m < k" by simp
      with Cons.IH k Suc show ?thesis by simp
    qed
  qed
qed

text \<open>
  C5: whatever the statement text, the parameters, the clock and the stored
  collection, the key-value backend's mutate operation reports \<open>rowsAffected = 1\<close>; so it
  does for an update or delete whose id matches no stored task.
\<close>

theorem web_runAsync_rowsAffected:
  "rowsAffected (fst (web_runAsync sql params now storage)) = JNum 1"
  by (simp add: web_runAsync_def Let_def split: prod.split)

lemma shape_set_status: "web_shape_of sql_set_status = ShapeSetStatus"
  by (simp add: web_shape_of_def sql_set_status_def js_def)
lemma shape_set_deadline: "web_shape_of sql_set_deadline = ShapeSetDeadline"
  by (simp add: web_shape_of_def sql_set_deadline_def js_def)

text \<open>
  C10: for a call that the key-value backend recognises as a status update or as a
  deadline update: when no stored task has the id \<open>params[1]\<close>, the stored collection is
  unchanged; when some task has it, the collection keeps its length, every task but the
  first one with that id is unchanged, and that task keeps its id, title, description
  and the field that is not the target, the target taking the value \<open>params[0]\<close>.
\<close>

theorem web_update_frame:
  assumes "web_shape_of sql = ShapeSetStatus \<or> web_shape_of sql = ShapeSetDeadline"
  shows "(list_all (\<lambda>t. JNum (s_id t) \<noteq> param params 1) (getAllTasks storage) \<longrightarrow>
            getAllTasks (snd (web_runAsync sql params now storage)) = getAllTasks storage) \<and>
         (\<forall>i. find_index (\<lambda>t. JNum (s_id t) = param params 1) (getAllTasks storage) = Some i \<longrightarrow>
            (let tasks = getAllTasks storage;
                 tasks' = getAllTasks (snd (web_runAsync sql params now storage))
             in length tasks' = length tasks \<and>
                (\<forall>j < length tasks. j \<noteq> i \<longrightarrow> tasks' ! j = tasks ! j) \<and>
                s_id (tasks' ! i) = s_id (tasks ! i) \<and>
                s_title (tasks' ! i) = s_title (tasks ! i) \<and>
                s_description (tasks' ! i) = s_description (tasks ! i) \<and>
                (web_shape_of sql = ShapeSetStatus \<longrightarrow>
                   s_status (tasks' ! i) = param params 0 \<and>
                   s_deadline (tasks' ! i) = s_deadline (tasks ! i)) \<and>
                (web_shape_of sql = ShapeSetDeadline \<longrightarrow>
                   s_deadline (tasks' ! i) = param params 0 \<and>
                   s_status (tasks' ! i) = s_status (tasks ! i))))"
proof (intro conjI impI allI)
  assume none: "list_all (\<lambda>t. JNum (s_id t) \<noteq> param params 1) (getAllTasks storage)"
  then have "find_index (\<lambda>t. JNum (s_id t) = param params 1) (getAllTasks storage) = None"
    by (simp add: find_index_None_iff)
  with assms show "getAllTasks (snd (web_runAsync sql params now storage)) = getAllTasks storage"
    by (auto simp: web_runAsync_def web_mutate_def Let_def getAllTasks_def)
next
  fix i
  assume found: "find_index (\<lambda>t. JNum (s_id t) = param params 1) (getAllTasks storage) = Some i"
  then have lt: "i < length (getAllTasks storage)"
    by (rule find_index_Some_lt)
  from assms found lt
  show "let tasks = getAllTasks storage;
            tasks' = getAllTasks (snd (web_runAsync sql params now storage))
        in length tasks' = length tasks \<and>
           (\<forall>j < length tasks. j \<noteq> i \<longrightarrow> tasks' ! j = tasks ! j) \<and>
           s_id (tasks' ! i) = s_id (tasks ! i) \<and>
           s_title (tasks' ! i) = s_title (tasks ! i) \<and>
           s_description (tasks' ! i) = s_description (tasks ! i) \<and>
           (web_shape_of sql = ShapeSetStatus \<longrightarrow>
              s_status (tasks' ! i) = param params 0 \<and>
              s_deadline (tasks' ! i) = s_deadline (tasks ! i)) \<and>
           (web_shape_of sql = ShapeSetDeadline \<longrightarrow>
              s_deadline (tasks' ! i) = param params 0 \<and>
              s_status (tasks' ! i) = s_status (tasks ! i))"
    by (auto simp: web_runAsync_def web_mutate_def Let_def getAllTasks_def)
qed

theorem web_update_frame_witness:
  "web_shape_of sql_set_status = ShapeSetStatus \<and>
   find_index (\<lambda>t. JNum (s_id t) = param [JStr str_termine, JNum 1700000000002] 1)
     (getAllTasks (Some two_tasks)) = Some 1 \<and>
   s_status (getAllTasks (snd (web_runAsync sql_set_status [JStr str_termine, JNum 1700000000002]
     1700000000003 (Some two_tasks))) ! 1) = JStr str_termine \<and>
   getAllTasks (snd (web_runAsync sql_set_status [JStr str_termine, JNum 1700000000002]
     1700000000003 (Some two_tasks))) ! 0 = two_tasks ! 0 \<and>
   list_all (\<lambda>t. JNum (s_id t) \<noteq> param [JStr str_termine, JNum 5] 1) (getAllTasks (Some two_tasks)) \<and>
   getAllTasks (snd (web_runAsync sql_set_status [JStr str_termine, JNum 5]
     1700000000003 (Some two_tasks))) = two_tasks"
proof -
  have shape: "web_shape_of sql_set_status = ShapeSetStatus \<or> web_shape_of sql_set_status = ShapeSetDeadline"
    by (simp add: shape_set_status)
  have found: "find_index (\<lambda>t. JNum (s_id t) = param [JStr str_termine, JNum 1700000000002] 1)
     (getAllTasks (Some two_tasks)) = Some 1"
    by (simp add: getAllTasks_def two_tasks_def param_def)
  have none: "list_all (\<lambda>t. JNum (s_id t) \<noteq> param [JStr str_termine, JNum 5] 1) (getAllTasks (Some two_tasks))"
    by (simp add: getAllTasks_def two_tasks_def param_def)
  note a = web_update_frame [OF shape, of "[JStr str_termine, JNum 1700000000002]" "Some two_tasks" 1700000000003]
  note b = web_update_frame [OF shape, of "[JStr str_termine, JNum 5]" "Some two_tasks" 1700000000003]
  from a found have a1: "s_status (getAllTasks (snd (web_runAsync sql_set_status [JStr str_termine, JNum 1700000000002]
     1700000000003 (Some two_tasks))) ! 1) = JStr str_termine"
    by (simp add: Let_def shape_set_status param_def)
  from a found have a2: "getAllTasks (snd (web_runAsync sql_set_status [JStr str_termine, JNum 1700000000002]
     1700000000003 (Some two_tasks))) ! 0 = two_tasks ! 0"
    by (simp add: Let_def shape_set_status getAllTasks_def two_tasks_def)
  from b none have b1: "getAllTasks (snd (web_runAsync sql_set_status [JStr str_termine, JNum 5]
     1700000000003 (Some two_tasks))) = two_tasks"
    by (simp add: getAllTasks_def)
  from shape_set_status found a1 a2 none b1 show ?thesis by blast
qed
section \<open>Properties of the relational backend\<close>

text \<open>
  C6: the result the relational backend's mutate operation returns, for an engine
  that reports \<open>n\<close> changed rows and the last inserted rowid \<open>r\<close>: \<open>insertId\<close> is \<open>r\<close>, but
  \<open>rowsAffected\<close> is 0 whatever \<open>n\<close> is, because the wrapper reads the \<open>length\<close> member of
  the number \<open>n\<close>.
\<close>

theorem native_runAsync_reports_no_changes:
  "native_runAsync
     \<lparr> db_execAsync = ex, db_getFirstAsync = gf, db_getAllAsync = ga,
       db_runAsync = (\<lambda>sql params s. (Inr \<lparr> changes = n, lastInsertRowId = r \<rparr>, s')) \<rparr>
     sql params s
   = (Inr \<lparr> rowsAffected = JNum 0, insertId = JNum r \<rparr>, s')"
  by (simp add: native_runAsync_def js_or_def)

text \<open>
  C7: on the relational backend, a query whose execution fails returns the empty
  sequence, and a mutation whose execution fails fails with the same error.
\<close>

theorem native_failure_policy:
  "(db_getAllAsync db sql params s = Inl e \<longrightarrow> native_getAllAsync db sql params s = Inr []) \<and>
   (fst (db_runAsync db sql' params' s) = Inl e' \<longrightarrow> fst (native_runAsync db sql' params' s) = Inl e')"
  by (auto simp: native_getAllAsync_def native_runAsync_def split: prod.splits sum.splits)

theorem native_failure_policy_witness:
  "db_getAllAsync sqlite sql_select_all [] fresh_db = Inl (SQLiteError ''no such table: tasks'') \<and>
   native_getAllAsync sqlite sql_select_all [] fresh_db = Inr [] \<and>
   fst (db_runAsync sqlite sql_delete [JNum 1] fresh_db) = Inl (SQLiteError ''no such table: tasks'') \<and>
   fst (native_runAsync sqlite sql_delete [JNum 1] fresh_db) = Inl (SQLiteError ''no such table: tasks'')"
proof -
  have q: "db_getAllAsync sqlite sql_select_all [] fresh_db = Inl (SQLiteError ''no such table: tasks'')"
    by (simp add: sqlite_def sqlite_getAllAsync_def fresh_db_def)
  have m: "fst (db_runAsync sqlite sql_delete [JNum 1] fresh_db) = Inl (SQLiteError ''no such table: tasks'')"
    by (simp add: sqlite_def sqlite_runAsync_def fresh_db_def)
  from native_failure_policy [of sqlite sql_select_all "[]" fresh_db "SQLiteError ''no such table: tasks''"
      sql_delete "[JNum 1]" "SQLiteError ''no such table: tasks''"] q m
  show ?thesis by simp
qed

lemma sql_texts_differ:
  "sql_create_table \<noteq> sql_alter" "sql_alter \<noteq> sql_create_table"
  by (simp_all add: sql_create_table_def sql_alter_def js_def)

text \<open>
  Whatever the engine: when the table statement succeeds and the probe returns, with
  a row or without, \<open>setupNativeDatabase\<close> ends there. ALTER TABLE is reached only when
  the probe fails.
\<close>

lemma setupNativeDatabase_probe_returns:
  assumes "db_execAsync db sql_create_table s0 = (Inr (), s1)"
    and "db_getFirstAsync db sql_probe [JStr (js ''deadline'')] s1 = Inr r"
  shows "setupNativeDatabase db s0 = (Inr (), s1)"
  using assms by (simp add: setupNativeDatabase_def)

text \<open>
  On the modelled engine, opening a database that has the table leaves it as it is,
  whatever its columns: no error and no second deadline column on a migrated schema,
  and no deadline column added to a legacy one.
\<close>

lemma setupNativeDatabase_existing_table:
  assumes "tbl_columns s = Some cols"
  shows "setupNativeDatabase sqlite s = (Inr (), s)"
  using assms
  by (simp add: setupNativeDatabase_def sqlite_def sqlite_execAsync_def sqlite_getFirstAsync_def)

text \<open>
  C2: opening a database whose table \<open>tasks\<close> was created without the deadline
  column. The probe returns no row and does not fail, so the \<open>catch\<close> branch that holds
  the ALTER TABLE statement is not entered: the open succeeds and the table still has
  no deadline column.
\<close>

theorem setupNativeDatabase_legacy_unchanged:
  "setupNativeDatabase sqlite legacy_db = (Inr (), legacy_db) \<and>
   tbl_columns legacy_db = Some [js ''id'', js ''title'', js ''description'', js ''status'']"
  by (simp add: setupNativeDatabase_def sqlite_def sqlite_execAsync_def sqlite_getFirstAsync_def
      legacy_db_def)

section \<open>The two backends side by side\<close>

lemma find_index_distinct_nth:
  "distinct ss \<Longrightarrow> k < length ss \<Longrightarrow> find_index (\<lambda>s. s = ss ! k) ss = Some k"
proof (induction ss arbitrary: k)
  case Nil
  then show ?case by simp
next
  case (Cons a ss)
  show ?case
  proof (cases k)
    case 0
    then show ?thesis by simp
  next
    case (Suc m)
    with Cons.prems have "ss ! m \<noteq> a" "m < length ss" "distinct ss"
      by auto
    with Cons.IH [of m] Suc show ?thesis by simp
  qed
qed

lemma rowid_of_nth: "distinct ss \<Longrightarrow> k < length ss \<Longrightarrow> rowid_of ss (ss ! k) = int k + 1"
  by (simp add: rowid_of_def find_index_distinct_nth)

lemma rowid_of_pos_iff: "0 < rowid_of ss i \<longleftrightarrow> i \<in> set ss"
proof (cases "find_index (\<lambda>s. s = i) ss")
  case None
  then have "i \<notin> set ss"
    by (auto simp: find_index_None_iff list_all_iff)
  with None show ?thesis by (simp add: rowid_of_def)
next
  case (Some k)
  then have "ss ! k = i" "k < length ss"
    using find_index_Some_sat [of "\<lambda>s. s = i" ss k] find_index_Some_lt [of "\<lambda>s. s = i" ss k] by auto
  then have "i \<in> set ss" by auto
  with Some show ?thesis by (simp add: rowid_of_def)
qed

lemma rowid_of_inj:
  assumes "j \<in> set ss" "rowid_of ss i = rowid_of ss j"
  shows "i = j"
proof -
  from assms have "i \<in> set ss"
    using rowid_of_pos_iff [of ss i] rowid_of_pos_iff [of ss j] by simp
  obtain ki where ki: "find_index (\<lambda>s. s = i) ss = Some ki"
    using \<open>i \<in> set ss\<close> by (cases "find_index (\<lambda>s. s = i) ss") (auto simp: find_index_None_iff list_all_iff)
  obtain kj where kj: "find_index (\<lambda>s. s = j) ss = Some kj"
    using \<open>j \<in> set ss\<close> by (cases "find_index (\<lambda>s. s = j) ss") (auto simp: find_index_None_iff list_all_iff)
  from ki kj assms(2) have "ki = kj" by (simp add: rowid_of_def)
  moreover from ki have "ss ! ki = i" using find_index_Some_sat [of "\<lambda>s. s = i" ss ki] by simp
  moreover from kj have "ss ! kj = j" using find_index_Some_sat [of "\<lambda>s. s = j" ss kj] by simp
  ultimately show ?thesis by simp
qed

lemma rowid_of_take_le:
  assumes "distinct ss" "j \<in> set (take n ss)"
  shows "rowid_of ss j \<le> int n"
proof -
  from assms(2) obtain k where k: "k < length (take n ss)" "take n ss ! k = j"
    by (auto simp: in_set_conv_nth)
  then have "k < n" "k < length ss" "ss ! k = j" by auto
  with assms(1) rowid_of_nth [of ss k] show ?thesis by simp
qed

lemma fold_max_bounded: "\<forall>x \<in> set xs. x \<le> m \<Longrightarrow> fold max xs (m::int) = m"
  by (induction xs) (auto simp: max_def)

lemma remove_first_distinct:
  "distinct (map f xs) \<Longrightarrow> find_index (\<lambda>x. f x = a) xs = Some k \<Longrightarrow>
     take k xs @ drop (Suc k) xs = filter (\<lambda>x. f x \<noteq> a) xs"
proof (induction xs arbitrary: k)
  case Nil
  then show ?case by simp
next
  case (Cons x xs)
  show ?case
  proof (cases "f x = a")
    case True
    with Cons.prems have "k = 0" "\<forall>y \<in> set xs. f y \<noteq> a" by (auto simp: image_iff)
    with True show ?thesis by (simp add: filter_id_conv)
  next
    case False
    with Cons.prems obtain m where "find_index (\<lambda>x. f x = a) xs = Some m" "k = Suc m"
      by auto
    with Cons.IH [of m] Cons.prems False show ?thesis by simp
  qed
qed

lemma remove_none: "find_index (\<lambda>x. f x = a) xs = None \<Longrightarrow> filter (\<lambda>x. f x \<noteq> a) xs = xs"
  by (simp add: find_index_None_iff list_all_iff filter_id_conv)

lemma update_first_distinct:
  "distinct (map f xs) \<Longrightarrow> find_index (\<lambda>x. f x = a) xs = Some k \<Longrightarrow>
     xs[k := g (xs ! k)] = map (\<lambda>x. if f x = a then g x else x) xs"
proof (induction xs arbitrary: k)
  case Nil
  then show ?case by simp
next
  case (Cons x xs)
  show ?case
  proof (cases "f x = a")
    case True
    with Cons.prems have "k = 0" "\<forall>y \<in> set xs. f y \<noteq> a" by (auto simp: image_iff)
    with True show ?thesis by (simp add: map_idI)
  next
    case False
    with Cons.prems obtain m where "find_index (\<lambda>x. f x = a) xs = Some m" "k = Suc m"
      by auto
    with Cons.IH [of m] Cons.prems False show ?thesis by simp
  qed
qed

lemma update_none:
  "find_index (\<lambda>x. f x = a) xs = None \<Longrightarrow> map (\<lambda>x. if f x = a then g x else x) xs = xs"
  by (simp add: find_index_None_iff list_all_iff map_idI)

lemma shape_insert: "web_shape_of sql_insert = ShapeInsert"
  by (simp add: web_shape_of_def sql_insert_def js_def)
lemma shape_delete: "web_shape_of sql_delete = ShapeDelete"
  by (simp add: web_shape_of_def sql_delete_def js_def)

lemma web_apply_Add:
  "web_apply (now, Add t d st dl) (Some ts) =
     Some (ts @ [\<lparr> s_id = now, s_title = JStr t, s_description = JStr d,
                    s_status = JStr (if st = [] then js ''En cours'' else st),
                    s_deadline = JStr (case dl of None \<Rightarrow> [] | Some x \<Rightarrow> x) \<rparr>])"
  by (simp add: web_apply_def web_runAsync_def web_mutate_def shape_insert getAllTasks_def
      param_def js_or_def split: option.split)

lemma web_apply_Delete:
  "distinct (map s_id ts) \<Longrightarrow>
   web_apply (now, Delete i) (Some ts) = Some (filter (\<lambda>t. s_id t \<noteq> i) ts)"
  by (cases "find_index (\<lambda>t. s_id t = i) ts")
     (simp_all add: web_apply_def web_runAsync_def web_mutate_def shape_delete getAllTasks_def
      param_def remove_first_distinct remove_none)

lemma web_apply_SetStatus:
  "distinct (map s_id ts) \<Longrightarrow>
   web_apply (now, SetStatus i v) (Some ts) =
     Some (map (\<lambda>t. if s_id t = i then t\<lparr> s_status := JStr v \<rparr> else t) ts)"
  by (cases "find_index (\<lambda>t. s_id t = i) ts")
     (simp_all add: web_apply_def web_runAsync_def web_mutate_def shape_set_status getAllTasks_def
      param_def update_first_distinct [where g = "\<lambda>t. t\<lparr> s_status := JStr v \<rparr>"] update_none)

lemma web_apply_SetDeadline:
  "distinct (map s_id ts) \<Longrightarrow>
   web_apply (now, SetDeadline i v) (Some ts) =
     Some (map (\<lambda>t. if s_id t = i then t\<lparr> s_deadline := JStr v \<rparr> else t) ts)"
  by (cases "find_index (\<lambda>t. s_id t = i) ts")
     (simp_all add: web_apply_def web_runAsync_def web_mutate_def shape_set_deadline getAllTasks_def
      param_def update_first_distinct [where g = "\<lambda>t. t\<lparr> s_deadline := JStr v \<rparr>"] update_none)

lemma sql_app_distinct:
  "sql_delete \<noteq> sql_insert" "sql_set_status \<noteq> sql_insert" "sql_set_status \<noteq> sql_delete"
  "sql_set_deadline \<noteq> sql_insert" "sql_set_deadline \<noteq> sql_delete" "sql_set_deadline \<noteq> sql_set_status"
  by (simp_all add: sql_insert_def sql_delete_def sql_set_status_def sql_set_deadline_def js_def)

lemma native_apply_Add:
  "tbl_columns s = Some all_columns \<Longrightarrow>
   native_apply (Add t d st dl) s =
     (let rowid = fold max (map s_id (tbl_rows s)) (tbl_seq s) + 1 in
      s\<lparr> tbl_rows := tbl_rows s @
            [\<lparr> s_id = rowid, s_title = JStr t, s_description = JStr d,
               s_status = JStr (if st = [] then js ''En cours'' else st),
               s_deadline = (case dl of None \<Rightarrow> JNull | Some x \<Rightarrow> if x = [] then JNull else JStr x) \<rparr>],
         tbl_seq := rowid, conn_last_rowid := rowid \<rparr>)"
  by (simp add: native_apply_def native_runAsync_def sqlite_def sqlite_runAsync_def all_columns_def
      js_or_def Let_def split: option.split)

lemma native_apply_Delete:
  "tbl_columns s = Some all_columns \<Longrightarrow>
   native_apply (Delete i) s = s\<lparr> tbl_rows := filter (\<lambda>r. s_id r \<noteq> i) (tbl_rows s) \<rparr>"
  by (simp add: native_apply_def native_runAsync_def sqlite_def sqlite_runAsync_def sql_app_distinct)

lemma native_apply_SetStatus:
  "tbl_columns s = Some all_columns \<Longrightarrow>
   native_apply (SetStatus i v) s =
     s\<lparr> tbl_rows := map (\<lambda>r. if s_id r = i then r\<lparr> s_status := JStr v \<rparr> else r) (tbl_rows s) \<rparr>"
  by (simp add: native_apply_def native_runAsync_def sqlite_def sqlite_runAsync_def sql_app_distinct
      all_columns_def)

lemma native_apply_SetDeadline:
  "tbl_columns s = Some all_columns \<Longrightarrow>
   native_apply (SetDeadline i v) s =
     s\<lparr> tbl_rows := map (\<lambda>r. if s_id r = i then r\<lparr> s_deadline := JStr v \<rparr> else r) (tbl_rows s) \<rparr>"
  by (simp add: native_apply_def native_runAsync_def sqlite_def sqlite_runAsync_def sql_app_distinct
      all_columns_def)

lemma list_all2_filter_both:
  "list_all2 R xs ys \<Longrightarrow> (\<And>x y. R x y \<Longrightarrow> P x = Q y) \<Longrightarrow> list_all2 R (filter P xs) (filter Q ys)"
  by (induction rule: list_all2_induct) auto

lemma list_all2_map_both:
  "list_all2 R xs ys \<Longrightarrow> (\<And>x y. R x y \<Longrightarrow> R (f x) (g y)) \<Longrightarrow> list_all2 R (map f xs) (map g ys)"
  by (induction rule: list_all2_induct) auto

lemma list_all2_right_has_left:
  "list_all2 R xs ys \<Longrightarrow> y \<in> set ys \<Longrightarrow> \<exists>x \<in> set xs. R x y"
  by (induction rule: list_all2_induct) auto

lemma s_id_null_as_empty: "s_id (null_as_empty r) = s_id r"
  by (simp add: null_as_empty_def)

lemma s_id_rename_task: "s_id (rename_task f t) = f (s_id t)"
  by (simp add: rename_task_def)

lemma related_row_id:
  "rename_task f t = null_as_empty r \<Longrightarrow> s_id r = f (s_id t)"
  using s_id_null_as_empty [of r] s_id_rename_task [of f t] by simp

lemma rename_task_update:
  "rename_task f (t\<lparr> s_status := v \<rparr>) = (rename_task f t)\<lparr> s_status := v \<rparr>"
  "rename_task f (t\<lparr> s_deadline := v \<rparr>) = (rename_task f t)\<lparr> s_deadline := v \<rparr>"
  by (cases t; simp add: rename_task_def)+

lemma null_as_empty_update:
  "null_as_empty (r\<lparr> s_status := v \<rparr>) = (null_as_empty r)\<lparr> s_status := v \<rparr>"
  "null_as_empty (r\<lparr> s_deadline := JStr w \<rparr>) = (null_as_empty r)\<lparr> s_deadline := JStr w \<rparr>"
  by (cases r; simp add: null_as_empty_def)+

lemma related_Delete:
  assumes "related ss n ts s"
  shows "related ss n (filter (\<lambda>t. s_id t \<noteq> i) ts)
           (s\<lparr> tbl_rows := filter (\<lambda>r. s_id r \<noteq> rowid_of ss i) (tbl_rows s) \<rparr>)"
proof -
  let ?R = "\<lambda>t r. s_id t \<in> set ss \<and> rename_task (rowid_of ss) t = null_as_empty r"
  from assms have all2: "list_all2 ?R ts (tbl_rows s)"
    by (simp add: related_def)
  have "list_all2 ?R (filter (\<lambda>t. s_id t \<noteq> i) ts) (filter (\<lambda>r. s_id r \<noteq> rowid_of ss i) (tbl_rows s))"
  proof (rule list_all2_filter_both [OF all2])
    fix t r
    assume R: "s_id t \<in> set ss \<and> rename_task (rowid_of ss) t = null_as_empty r"
    then have mem: "s_id t \<in> set ss" and eq: "rename_task (rowid_of ss) t = null_as_empty r"
      by simp_all
    show "(s_id t \<noteq> i) = (s_id r \<noteq> rowid_of ss i)"
      unfolding related_row_id [OF eq] using rowid_of_inj [OF mem, of i] by auto
  qed
  moreover from assms have "set (map s_id (filter (\<lambda>t. s_id t \<noteq> i) ts)) \<subseteq> set (take n ss)"
    by (auto simp: related_def)
  moreover from assms have "distinct (map s_id (filter (\<lambda>t. s_id t \<noteq> i) ts))"
    by (simp add: related_def distinct_map_filter)
  ultimately show ?thesis using assms by (simp add: related_def)
qed

lemma map_s_id_update:
  "map s_id (map (\<lambda>t. if s_id t = i then t\<lparr> s_status := v \<rparr> else t) ts) = map s_id ts"
  "map s_id (map (\<lambda>t. if s_id t = i then t\<lparr> s_deadline := v \<rparr> else t) ts) = map s_id ts"
  by (induction ts) auto

lemma related_SetStatus:
  assumes "related ss n ts s"
  shows "related ss n (map (\<lambda>t. if s_id t = i then t\<lparr> s_status := JStr v \<rparr> else t) ts)
           (s\<lparr> tbl_rows := map (\<lambda>r. if s_id r = rowid_of ss i then r\<lparr> s_status := JStr v \<rparr> else r) (tbl_rows s) \<rparr>)"
proof -
  let ?R = "\<lambda>t r. s_id t \<in> set ss \<and> rename_task (rowid_of ss) t = null_as_empty r"
  from assms have all2: "list_all2 ?R ts (tbl_rows s)"
    by (simp add: related_def)
  have "list_all2 ?R (map (\<lambda>t. if s_id t = i then t\<lparr> s_status := JStr v \<rparr> else t) ts)
          (map (\<lambda>r. if s_id r = rowid_of ss i then r\<lparr> s_status := JStr v \<rparr> else r) (tbl_rows s))"
  proof (rule list_all2_map_both [OF all2])
    fix t r
    assume R: "s_id t \<in> set ss \<and> rename_task (rowid_of ss) t = null_as_empty r"
    then have mem: "s_id t \<in> set ss" and eq: "rename_task (rowid_of ss) t = null_as_empty r"
      by simp_all
    have same: "(s_id t = i) = (s_id r = rowid_of ss i)"
      unfolding related_row_id [OF eq] using rowid_of_inj [OF mem, of i] by auto
    have upd: "rename_task (rowid_of ss) (t\<lparr> s_status := JStr v \<rparr>) = null_as_empty (r\<lparr> s_status := JStr v \<rparr>)"
      unfolding rename_task_update null_as_empty_update eq ..
    show "s_id (if s_id t = i then t\<lparr> s_status := JStr v \<rparr> else t) \<in> set ss \<and>
          rename_task (rowid_of ss) (if s_id t = i then t\<lparr> s_status := JStr v \<rparr> else t) =
          null_as_empty (if s_id r = rowid_of ss i then r\<lparr> s_status := JStr v \<rparr> else r)"
    proof (cases "s_id t = i")
      case True
      with same have "s_id r = rowid_of ss i" by simp
      with True mem upd show ?thesis by simp
    next
      case False
      with same have "s_id r \<noteq> rowid_of ss i" by simp
      with False mem eq show ?thesis by simp
    qed
  qed
  moreover have ids: "map s_id (map (\<lambda>t. if s_id t = i then t\<lparr> s_status := JStr v \<rparr> else t) ts) = map s_id ts"
    by (rule map_s_id_update)
  ultimately show ?thesis
    unfolding related_def ids using assms by (simp add: related_def)
qed

lemma related_SetDeadline:
  assumes "related ss n ts s"
  shows "related ss n (map (\<lambda>t. if s_id t = i then t\<lparr> s_deadline := JStr v \<rparr> else t) ts)
           (s\<lparr> tbl_rows := map (\<lambda>r. if s_id r = rowid_of ss i then r\<lparr> s_deadline := JStr v \<rparr> else r) (tbl_rows s) \<rparr>)"
proof -
  let ?R = "\<lambda>t r. s_id t \<in> set ss \<and> rename_task (rowid_of ss) t = null_as_empty r"
  from assms have all2: "list_all2 ?R ts (tbl_rows s)"
    by (simp add: related_def)
  have "list_all2 ?R (map (\<lambda>t. if s_id t = i then t\<lparr> s_deadline := JStr v \<rparr> else t) ts)
          (map (\<lambda>r. if s_id r = rowid_of ss i then r\<lparr> s_deadline := JStr v \<rparr> else r) (tbl_rows s))"
  proof (rule list_all2_map_both [OF all2])
    fix t r
    assume R: "s_id t \<in> set ss \<and> rename_task (rowid_of ss) t = null_as_empty r"
    then have mem: "s_id t \<in> set ss" and eq: "rename_task (rowid_of ss) t = null_as_empty r"
      by simp_all
    have same: "(s_id t = i) = (s_id r = rowid_of ss i)"
      unfolding related_row_id [OF eq] using rowid_of_inj [OF mem, of i] by auto
    have upd: "rename_task (rowid_of ss) (t\<lparr> s_deadline := JStr v \<rparr>) = null_as_empty (r\<lparr> s_deadline := JStr v \<rparr>)"
      unfolding rename_task_update null_as_empty_update eq ..
    show "s_id (if s_id t = i then t\<lparr> s_deadline := JStr v \<rparr> else t) \<in> set ss \<and>
          rename_task (rowid_of ss) (if s_id t = i then t\<lparr> s_deadline := JStr v \<rparr> else t) =
          null_as_empty (if s_id r = rowid_of ss i then r\<lparr> s_deadline := JStr v \<rparr> else r)"
    proof (cases "s_id t = i")
      case True
      with same have "s_id r = rowid_of ss i" by simp
      with True mem upd show ?thesis by simp
    next
      case False
      with same have "s_id r \<noteq> rowid_of ss i" by simp
      with False mem eq show ?thesis by simp
    qed
  qed
  moreover have ids: "map s_id (map (\<lambda>t. if s_id t = i then t\<lparr> s_deadline := JStr v \<rparr> else t) ts) = map s_id ts"
    by (rule map_s_id_update)
  ultimately show ?thesis
    unfolding related_def ids using assms by (simp add: related_def)
qed

lemma related_rows_bounded:
  assumes "distinct ss" "related ss n ts s"
  shows "fold max (map s_id (tbl_rows s)) (tbl_seq s) = int n"
proof -
  have "\<forall>x \<in> set (map s_id (tbl_rows s)). x \<le> int n"
  proof
    fix x
    assume "x \<in> set (map s_id (tbl_rows s))"
    then obtain r where r: "r \<in> set (tbl_rows s)" "x = s_id r" by auto
    from assms(2) have "list_all2 (\<lambda>t r. s_id t \<in> set ss \<and> rename_task (rowid_of ss) t = null_as_empty r) ts (tbl_rows s)"
      by (simp add: related_def)
    from list_all2_right_has_left [OF this r(1)]
    obtain t where t: "t \<in> set ts" "rename_task (rowid_of ss) t = null_as_empty r" by auto
    then have "s_id r = rowid_of ss (s_id t)" by (intro related_row_id) simp
    moreover from assms(2) t(1) have "s_id t \<in> set (take n ss)" by (auto simp: related_def)
    ultimately show "x \<le> int n"
      unfolding r(2) using rowid_of_take_le [OF assms(1), of "s_id t" n] by simp
  qed
  with assms(2) show ?thesis by (simp add: fold_max_bounded related_def)
qed

lemma related_Add:
  assumes "distinct ss" "related ss n ts s" "n < length ss" "ss ! n = now"
  shows "related ss (Suc n)
           (ts @ [\<lparr> s_id = now, s_title = JStr t, s_description = JStr d,
                     s_status = JStr (if st = [] then js ''En cours'' else st),
                     s_deadline = JStr (case dl of None \<Rightarrow> [] | Some x \<Rightarrow> x) \<rparr>])
           (native_apply (Add t d st dl) s)"
proof -
  let ?R = "\<lambda>t r. s_id t \<in> set ss \<and> rename_task (rowid_of ss) t = null_as_empty r"
  from assms(2) have cols: "tbl_columns s = Some all_columns" and seq: "tbl_seq s = int n"
    and all2: "list_all2 ?R ts (tbl_rows s)" and sub: "set (map s_id ts) \<subseteq> set (take n ss)"
    and dist: "distinct (map s_id ts)"
    by (simp_all add: related_def)
  have mx: "fold max (map s_id (tbl_rows s)) (tbl_seq s) = int n"
    by (rule related_rows_bounded [OF assms(1,2)])
  have rid: "rowid_of ss now = int n + 1"
    using rowid_of_nth [OF assms(1,3)] assms(4) by simp
  have mem: "now \<in> set ss" using assms(3,4) by auto
  have take_Suc: "take (Suc n) ss = take n ss @ [now]"
    using assms(3,4) by (simp add: take_Suc_conv_app_nth)
  have fresh: "now \<notin> set (take n ss)"
  proof
    assume "now \<in> set (take n ss)"
    then obtain k where "k < n" "k < length ss" "ss ! k = now"
      by (auto simp: in_set_conv_nth)
    with assms(1,3,4) show False by (auto simp: distinct_conv_nth)
  qed
  have new: "?R \<lparr> s_id = now, s_title = JStr t, s_description = JStr d,
                 s_status = JStr (if st = [] then js ''En cours'' else st),
                 s_deadline = JStr (case dl of None \<Rightarrow> [] | Some x \<Rightarrow> x) \<rparr>
             \<lparr> s_id = int n + 1, s_title = JStr t, s_description = JStr d,
               s_status = JStr (if st = [] then js ''En cours'' else st),
               s_deadline = (case dl of None \<Rightarrow> JNull | Some x \<Rightarrow> if x = [] then JNull else JStr x) \<rparr>"
    using mem rid by (simp add: rename_task_def null_as_empty_def split: option.split)
  show ?thesis
    unfolding native_apply_Add [OF cols] Let_def mx
    using assms(3) cols all2 new sub dist fresh
    by (auto simp: related_def take_Suc intro!: list_all2_appendI)
qed

lemma web_run_Cons: "web_run (c # cs) st = web_run cs (web_apply c st)"
  by (simp add: web_run_def)

lemma native_run_Cons: "native_run (c # cs) s = native_run cs (native_apply c s)"
  by (simp add: native_run_def)

lemma simulation:
  "distinct ss \<Longrightarrow> related ss n ts s \<Longrightarrow> drop n ss = stamps cs \<Longrightarrow>
   \<exists>ts'. web_run cs (Some ts) = Some ts' \<and>
         related ss (length ss) ts' (native_run (map (\<lambda>c. rename_op (rowid_of ss) (snd c)) cs) s)"
proof (induction cs arbitrary: n ts s)
  case Nil
  then have "n = length ss" by (simp add: related_def)
  with Nil show ?case by (simp add: web_run_def native_run_def)
next
  case (Cons c cs)
  obtain now o' where c: "c = (now, o')" by (cases c)
  from Cons.prems(2) have cols: "tbl_columns s = Some all_columns" and dist: "distinct (map s_id ts)"
    by (simp_all add: related_def)
  show ?case
  proof (cases o')
    case (Add t d st dl)
    with Cons.prems(3) c have dr: "drop n ss = now # stamps cs" by simp
    then have n: "n < length ss" by (cases "n < length ss") auto
    with dr have nth: "ss ! n = now" and rest: "drop (Suc n) ss = stamps cs"
      using Cons_nth_drop_Suc [of n ss] by simp_all
    have w: "web_apply c (Some ts) =
        Some (ts @ [\<lparr> s_id = now, s_title = JStr t, s_description = JStr d,
                     s_status = JStr (if st = [] then js ''En cours'' else st),
                     s_deadline = JStr (case dl of None \<Rightarrow> [] | Some x \<Rightarrow> x) \<rparr>])"
      unfolding c Add by (rule web_apply_Add)
    have m: "rename_op (rowid_of ss) (snd c) = Add t d st dl"
      unfolding c Add by simp
    from Cons.IH [OF Cons.prems(1) related_Add [OF Cons.prems(1,2) n nth] rest]
    show ?thesis
      unfolding web_run_Cons native_run_Cons list.map w m .
  next
    case (Delete i)
    with Cons.prems(3) c have rest: "drop n ss = stamps cs" by simp
    have w: "web_apply c (Some ts) = Some (filter (\<lambda>t. s_id t \<noteq> i) ts)"
      unfolding c Delete by (rule web_apply_Delete [OF dist])
    have m: "native_apply (rename_op (rowid_of ss) (snd c)) s =
        s\<lparr> tbl_rows := filter (\<lambda>r. s_id r \<noteq> rowid_of ss i) (tbl_rows s) \<rparr>"
      unfolding c Delete snd_conv rename_op.simps by (rule native_apply_Delete [OF cols])
    from Cons.IH [OF Cons.prems(1) related_Delete [OF Cons.prems(2)] rest]
    show ?thesis
      unfolding web_run_Cons native_run_Cons list.map w m .
  next
    case (SetStatus i v)
    with Cons.prems(3) c have rest: "drop n ss = stamps cs" by simp
    have w: "web_apply c (Some ts) =
        Some (map (\<lambda>t. if s_id t = i then t\<lparr> s_status := JStr v \<rparr> else t) ts)"
      unfolding c SetStatus by (rule web_apply_SetStatus [OF dist])
    have m: "native_apply (rename_op (rowid_of ss) (snd c)) s =
        s\<lparr> tbl_rows := map (\<lambda>r. if s_id r = rowid_of ss i then r\<lparr> s_status := JStr v \<rparr> else r) (tbl_rows s) \<rparr>"
      unfolding c SetStatus snd_conv rename_op.simps by (rule native_apply_SetStatus [OF cols])
    from Cons.IH [OF Cons.prems(1) related_SetStatus [OF Cons.prems(2)] rest]
    show ?thesis
      unfolding web_run_Cons native_run_Cons list.map w m .
  next
    case (SetDeadline i v)
    with Cons.prems(3) c have rest: "drop n ss = stamps cs" by simp
    have w: "web_apply c (Some ts) =
        Some (map (\<lambda>t. if s_id t = i then t\<lparr> s_deadline := JStr v \<rparr> else t) ts)"
      unfolding c SetDeadline by (rule web_apply_SetDeadline [OF dist])
    have m: "native_apply (rename_op (rowid_of ss) (snd c)) s =
        s\<lparr> tbl_rows := map (\<lambda>r. if s_id r = rowid_of ss i then r\<lparr> s_deadline := JStr v \<rparr> else r) (tbl_rows s) \<rparr>"
      unfolding c SetDeadline snd_conv rename_op.simps by (rule native_apply_SetDeadline [OF cols])
    from Cons.IH [OF Cons.prems(1) related_SetDeadline [OF Cons.prems(2)] rest]
    show ?thesis
      unfolding web_run_Cons native_run_Cons list.map w m .
  qed
qed

lemma list_all2_maps_eq:
  "list_all2 (\<lambda>x y. P x \<and> f x = g y) xs ys \<Longrightarrow> map f xs = map g ys"
  by (induction rule: list_all2_induct) auto

lemma setup_fresh:
  "setupNativeDatabase sqlite fresh_db = (Inr (), fresh_db\<lparr> tbl_columns := Some all_columns \<rparr>)"
  by (simp add: setupNativeDatabase_def sqlite_def sqlite_execAsync_def sqlite_getFirstAsync_def
      fresh_db_def all_columns_def)

text \<open>
  C1 (as amended): from empty stores, and provided the key-value backend reads a
  different clock value at each insertion, every sequence of add, delete, setStatus and
  setDeadline calls leaves the two backends with the same tasks in the same order, up to
  the ids (the k-th inserted task has its clock reading as id in the key-value backend and
  \<open>k\<close> in the relational one) and up to an absent deadline, which the relational backend
  stores as NULL and the key-value backend as the empty string.
\<close>

theorem backends_converge:
  assumes "distinct (stamps cs)"
  shows "map (rename_task (rowid_of (stamps cs))) (web_getAllAsync (web_run cs (web_open None))) =
         map null_as_empty
           (native_tasks (native_run (map (\<lambda>c. rename_op (rowid_of (stamps cs)) (snd c)) cs)
              (snd (setupNativeDatabase sqlite fresh_db))))"
proof -
  let ?ss = "stamps cs"
  let ?s0 = "fresh_db\<lparr> tbl_columns := Some all_columns \<rparr>"
  have "related ?ss 0 [] ?s0"
    by (simp add: related_def fresh_db_def)
  from simulation [OF assms this, of cs]
  obtain ts' where run: "web_run cs (Some []) = Some ts'"
    and rel: "related ?ss (length ?ss) ts' (native_run (map (\<lambda>c. rename_op (rowid_of ?ss) (snd c)) cs) ?s0)"
    by auto
  let ?s' = "native_run (map (\<lambda>c. rename_op (rowid_of ?ss) (snd c)) cs) ?s0"
  from rel have cols: "tbl_columns ?s' = Some all_columns" by (simp add: related_def)
  then have nt: "native_tasks ?s' = tbl_rows ?s'"
    by (simp add: native_tasks_def native_getAllAsync_def sqlite_def sqlite_getAllAsync_def)
  from rel have "list_all2 (\<lambda>t r. s_id t \<in> set ?ss \<and> rename_task (rowid_of ?ss) t = null_as_empty r)
      ts' (tbl_rows ?s')"
    by (simp add: related_def)
  then have "map (rename_task (rowid_of ?ss)) ts' = map null_as_empty (tbl_rows ?s')"
    by (rule list_all2_maps_eq)
  with run nt show ?thesis
    by (simp add: web_open_def web_getAllAsync_def setup_fresh)
qed

lemma stamps_example: "stamps example_script = [1700000000001, 1700000000002]"
  by (simp add: example_script_def)

lemma web_example:
  "web_getAllAsync (web_run example_script (web_open None)) =
     [\<lparr> s_id = 1700000000002, s_title = JStr (js ''Call Bob''), s_description = JStr (js ''soon''),
        s_status = JStr str_termine, s_deadline = JStr (js ''2024-03-01'') \<rparr>]"
  by (simp add: example_script_def web_run_def web_open_def web_getAllAsync_def
      web_apply_Add web_apply_Delete web_apply_SetStatus web_apply_SetDeadline str_termine_def js_def)

theorem backends_converge_witness:
  "distinct (stamps example_script) \<and>
   web_getAllAsync (web_run example_script (web_open None)) =
     [\<lparr> s_id = 1700000000002, s_title = JStr (js ''Call Bob''), s_description = JStr (js ''soon''),
        s_status = JStr str_termine, s_deadline = JStr (js ''2024-03-01'') \<rparr>] \<and>
   map (rename_task (rowid_of (stamps example_script)))
     (web_getAllAsync (web_run example_script (web_open None))) =
   map null_as_empty
     (native_tasks (native_run (map (\<lambda>c. rename_op (rowid_of (stamps example_script)) (snd c)) example_script)
        (snd (setupNativeDatabase sqlite fresh_db))))"
proof -
  have d: "distinct (stamps example_script)"
    by (simp add: stamps_example)
  from backends_converge [OF d] d web_example show ?thesis by simp
qed

text \<open>
  The claim as stated fails on a single insertion without deadline: the key-value
  backend stores the empty string as deadline, the relational backend NULL.
\<close>

theorem backends_differ_on_absent_deadline:
  "web_getAllAsync (web_run [(1700000000001, Add (js ''Buy milk'') [] str_en_cours None)] (web_open None)) =
     [\<lparr> s_id = 1700000000001, s_title = JStr (js ''Buy milk''), s_description = JStr [],
        s_status = JStr str_en_cours, s_deadline = JStr [] \<rparr>] \<and>
   native_tasks (native_run [Add (js ''Buy milk'') [] str_en_cours None]
       (snd (setupNativeDatabase sqlite fresh_db))) =
     [\<lparr> s_id = 1, s_title = JStr (js ''Buy milk''), s_description = JStr [],
        s_status = JStr str_en_cours, s_deadline = JNull \<rparr>] \<and>
   map (rename_task (rowid_of [1700000000001]))
     (web_getAllAsync (web_run [(1700000000001, Add (js ''Buy milk'') [] str_en_cours None)] (web_open None))) \<noteq>
   native_tasks (native_run [Add (js ''Buy milk'') [] str_en_cours None]
       (snd (setupNativeDatabase sqlite fresh_db)))"
proof -
  have w: "web_getAllAsync (web_run [(1700000000001, Add (js ''Buy milk'') [] str_en_cours None)] (web_open None)) =
     [\<lparr> s_id = 1700000000001, s_title = JStr (js ''Buy milk''), s_description = JStr [],
        s_status = JStr str_en_cours, s_deadline = JStr [] \<rparr>]"
    by (simp add: web_run_def web_open_def web_getAllAsync_def web_apply_Add str_en_cours_def js_def)
  have s0: "snd (setupNativeDatabase sqlite fresh_db) = fresh_db\<lparr> tbl_columns := Some all_columns \<rparr>"
    by (simp add: setup_fresh)
  have n1: "native_apply (Add (js ''Buy milk'') [] str_en_cours None) (fresh_db\<lparr> tbl_columns := Some all_columns \<rparr>) =
      fresh_db\<lparr> tbl_columns := Some all_columns,
        tbl_rows := [\<lparr> s_id = 1, s_title = JStr (js ''Buy milk''), s_description = JStr [],
          s_status = JStr str_en_cours, s_deadline = JNull \<rparr>],
        tbl_seq := 1, conn_last_rowid := 1 \<rparr>"
    by (simp add: native_apply_Add fresh_db_def str_en_cours_def js_def)
  have n: "native_tasks (native_run [Add (js ''Buy milk'') [] str_en_cours None]
       (snd (setupNativeDatabase sqlite fresh_db))) =
     [\<lparr> s_id = 1, s_title = JStr (js ''Buy milk''), s_description = JStr [],
        s_status = JStr str_en_cours, s_deadline = JNull \<rparr>]"
    unfolding s0 native_run_def fold_simps n1
    by (simp add: native_tasks_def native_getAllAsync_def sqlite_def sqlite_getAllAsync_def)
  show ?thesis
    unfolding w n by (simp add: rename_task_def)
qed

lemma web_apply_Delete_first:
  "web_apply (now, Delete i) (Some ts) =
     Some (case find_index (\<lambda>t. s_id t = i) ts of
             None \<Rightarrow> ts
           | Some k \<Rightarrow> take k ts @ drop (Suc k) ts)"
  by (simp add: web_apply_def web_runAsync_def web_mutate_def shape_delete getAllTasks_def
      param_def split: option.split)

text \<open>
  The condition on the clock cannot be dropped. When two insertions read the same clock
  value, the key-value backend holds two tasks with one id, and two deletions of that
  id remove both, while the relational backend, whose ids differ, keeps the second task.
\<close>

lemma repeated_clock_reading_diverges:
  "\<not> distinct (stamps clash_script) \<and>
   web_getAllAsync (web_run clash_script (web_open None)) = [] \<and>
   native_tasks (native_run (map (\<lambda>c. rename_op (rowid_of (stamps clash_script)) (snd c)) clash_script)
       (snd (setupNativeDatabase sqlite fresh_db))) =
     [\<lparr> s_id = 2, s_title = JStr (js ''Call Bob''), s_description = JStr [],
        s_status = JStr str_en_cours, s_deadline = JNull \<rparr>]"
proof -
  have st: "stamps clash_script = [1700000000001, 1700000000001]"
    by (simp add: clash_script_def)
  have w: "web_getAllAsync (web_run clash_script (web_open None)) = []"
    by (simp add: clash_script_def web_run_def web_open_def web_getAllAsync_def web_apply_Add
        web_apply_Delete_first)
  have s0: "snd (setupNativeDatabase sqlite fresh_db) = fresh_db\<lparr> tbl_columns := Some all_columns \<rparr>"
    by (simp add: setup_fresh)
  have n: "native_tasks (native_run (map (\<lambda>c. rename_op (rowid_of (stamps clash_script)) (snd c)) clash_script)
       (snd (setupNativeDatabase sqlite fresh_db))) =
     [\<lparr> s_id = 2, s_title = JStr (js ''Call Bob''), s_description = JStr [],
        s_status = JStr str_en_cours, s_deadline = JNull \<rparr>]"
    unfolding s0 st
    by (simp add: clash_script_def native_run_def rowid_of_def native_apply_Add native_apply_Delete
        fresh_db_def native_tasks_def native_getAllAsync_def sqlite_def sqlite_getAllAsync_def
        str_en_cours_def js_def)
  from st w n show ?thesis by simp
qed

section \<open>Properties of the filter\<close>

lemma trim_blank:
  assumes "list_all is_whitespace s"
  shows "trim s = []"
proof -
  from assms have d: "dropWhile is_whitespace s = []"
    by (simp add: list_all_iff dropWhile_eq_Nil_conv)
  show ?thesis unfolding trim_def d by simp
qed

text \<open>
  C9: for every list of tasks and every search query that is empty or consists only
  of white space, the filter returns the list itself: all tasks, in their original order.
\<close>

theorem filter_blank_query:
  "list_all is_whitespace q \<Longrightarrow> filteredTasks rt q tasks = tasks"
  by (simp add: filteredTasks_def trim_blank)

theorem filter_blank_query_witness:
  "list_all is_whitespace (js ''  '' @ [9, 160]) \<and>
   filteredTasks sample_runtime (js ''  '' @ [9, 160]) [task_milk, task_report, task_done] =
     [task_milk, task_report, task_done]"
proof -
  have b: "list_all is_whitespace (js ''  '' @ [9, 160])"
    by (simp add: js_def is_whitespace_def)
  from filter_blank_query [OF b, of sample_runtime "[task_milk, task_report, task_done]"] b
  show ?thesis by simp
qed

lemma resolve_formatDate:
  "resolve (memo_scope a b c) ''formatDate'' = Inl ReferenceError"
  by (simp add: resolve_def memo_scope_def)

lemma resolve_query:
  "resolve (memo_scope a b c) ''query'' = Inl ReferenceError"
  by (simp add: resolve_def memo_scope_def)

lemma date_match_try_throws:
  "date_match_try rt (memo_scope a b c) task = Inl ReferenceError"
  by (simp add: date_match_try_def resolve_formatDate)

lemma termine_facts:
  "str_includes (js ''termine'') (js ''termine'')"
  "\<not> str_includes (js ''en cours'') (js ''termine'')"
  "\<not> all_digits (js ''termine'')"
  by (simp_all add: js_def all_digits_def)

lemma task_matches_termine:
  assumes "normalize_text rt str_termine = js ''termine''"
    and "normalize_text rt str_en_cours = js ''en cours''"
  shows "task_matches rt (memo_scope a b c) (js ''termine'') =
           (\<lambda>t. status t = Termine \<or>
                 str_includes (toLowerCase rt (title t)) (js ''termine'') \<or>
                 str_includes (toLowerCase rt (description t)) (js ''termine''))"
proof (rule ext)
  fix t
  show "task_matches rt (memo_scope a b c) (js ''termine'') t =
          (status t = Termine \<or>
           str_includes (toLowerCase rt (title t)) (js ''termine'') \<or>
           str_includes (toLowerCase rt (description t)) (js ''termine''))"
  proof (cases "status t")
    case EnCours
    with assms(2) show ?thesis
      by (simp add: task_matches_def status_text_def termine_facts date_match_try_throws)
  next
    case Termine
    with assms(1) show ?thesis
      by (simp add: task_matches_def status_text_def termine_facts)
  qed
qed

text \<open>
  C8 (as amended): for a runtime that normalises the two status texts to \<open>termine\<close> and
  \<open>en cours\<close>, and every query whose trimmed, lower-cased and accent-stripped form is
  \<open>termine\<close> (the query of the claim in any case, with or without its accent), the filter
  returns, in their original order, exactly the tasks whose status is the done value or
  whose lower-cased title or description contains \<open>termine\<close>.
\<close>

theorem filter_termine:
  assumes "trim q \<noteq> []"
    and "normalize_text rt (trim q) = js ''termine''"
    and "normalize_text rt str_termine = js ''termine''"
    and "normalize_text rt str_en_cours = js ''en cours''"
  shows "filteredTasks rt q tasks =
           filter (\<lambda>t. status t = Termine \<or>
                        str_includes (toLowerCase rt (title t)) (js ''termine'') \<or>
                        str_includes (toLowerCase rt (description t)) (js ''termine'')) tasks"
  using assms(1,2) by (simp add: filteredTasks_def Let_def task_matches_termine [OF assms(3,4)])

lemmas filter_eval =
  filteredTasks_def trim_def is_whitespace_def normalize_text_def sample_runtime_def strip_marks_def
  lower_unit_def decompose_unit_def task_matches_def status_text_def str_en_cours_def str_termine_def
  all_digits_def has_deadline_def date_match_try_def resolve_def memo_scope_def
  task_milk_def task_report_def task_done_def js_def Let_def

theorem filter_termine_witness:
  "trim (js '' TERMIN'' @ [201, 32]) \<noteq> [] \<and>
   normalize_text sample_runtime (trim (js '' TERMIN'' @ [201, 32])) = js ''termine'' \<and>
   normalize_text sample_runtime str_termine = js ''termine'' \<and>
   normalize_text sample_runtime str_en_cours = js ''en cours'' \<and>
   filteredTasks sample_runtime (js '' TERMIN'' @ [201, 32]) [task_milk, task_report, task_done] =
     [task_report, task_done]"
proof -
  have t: "trim (js '' TERMIN'' @ [201, 32]) \<noteq> []"
    by (simp add: filter_eval)
  have n: "normalize_text sample_runtime (trim (js '' TERMIN'' @ [201, 32])) = js ''termine''"
    by (simp add: filter_eval)
  have s1: "normalize_text sample_runtime str_termine = js ''termine''"
    by (simp add: filter_eval)
  have s2: "normalize_text sample_runtime str_en_cours = js ''en cours''"
    by (simp add: filter_eval)
  have "filter (\<lambda>t. status t = Termine \<or>
                        str_includes (toLowerCase sample_runtime (title t)) (js ''termine'') \<or>
                        str_includes (toLowerCase sample_runtime (description t)) (js ''termine''))
          [task_milk, task_report, task_done] = [task_report, task_done]"
    by (simp add: filter_eval)
  with filter_termine [OF t n s1 s2, of "[task_milk, task_report, task_done]"] t n s1 s2
  show ?thesis by simp
qed

text \<open>
  The claim as stated fails on a task in progress whose title is \<open>Terminer le rapport\<close>:
  the filter returns it along with the task that is done.
\<close>

theorem filter_termine_not_only_done:
  "filteredTasks sample_runtime (js ''termin'' @ [233]) [task_report, task_done] = [task_report, task_done] \<and>
   filter (\<lambda>t. status t = Termine) [task_report, task_done] = [task_done] \<and>
   status task_report = EnCours"
  by (simp add: filter_eval)

text \<open>
  C4: the task \<open>Buy milk\<close> has the deadline \<open>2024-01-05\<close>, which parses, and the query
  \<open>2024-01\<close> is not numeric, matches neither status, title nor description, and occurs in
  the ISO rendering of the deadline; the filter leaves the task out. The inner \<open>try\<close>
  reads \<open>formatDate\<close> before the component has initialised it and the undeclared name
  \<open>query\<close>; either throws, and the \<open>catch\<close> returns \<open>false\<close>.
\<close>

theorem filter_misses_iso_date:
  "filteredTasks sample_runtime (js ''2024-01'') [task_milk] = [] \<and>
   deadline task_milk = Some (js ''2024-01-05'') \<and>
   parseDate sample_runtime (js ''2024-01-05'') = Some 1704412800000 \<and>
   str_includes (before_T (toISOString sample_runtime 1704412800000)) (js ''2024-01'')"
  by (simp add: filter_eval before_T_def)

section \<open>Properties of the sort\<close>

lemma insert_sorted_insort_key:
  "(\<And>y. y \<in> set ys \<Longrightarrow> positive (cmp x y) \<longleftrightarrow> f y < f x) \<Longrightarrow>
   insert_sorted cmp x ys = insort_key f x ys"
  for f :: "'a \<Rightarrow> 'k::linorder"
  by (induction ys) (auto simp: not_le)

lemma array_sort_sort_key:
  "(\<And>x y. x \<in> set xs \<Longrightarrow> y \<in> set xs \<Longrightarrow> positive (cmp x y) \<longleftrightarrow> f y < f x) \<Longrightarrow>
   array_sort cmp xs = sort_key f xs"
  for f :: "'a \<Rightarrow> 'k::linorder"
proof (induction xs)
  case Nil
  then show ?case by (simp add: array_sort_def)
next
  case (Cons x xs)
  have IH: "array_sort cmp xs = sort_key f xs"
    by (rule Cons.IH) (simp add: Cons.prems)
  have "insert_sorted cmp x (sort_key f xs) = insort_key f x (sort_key f xs)"
    by (rule insert_sorted_insort_key) (simp add: Cons.prems)
  with IH show ?case by (simp add: array_sort_def)
qed

lemma deadline_time_cases:
  "deadline_time rt t \<noteq> NaN \<Longrightarrow>
   (has_deadline t \<and> (\<exists>v. deadline_time rt t = Finite v)) \<or>
   (\<not> has_deadline t \<and> deadline_time rt t = PosInf)"
  by (auto simp: deadline_time_def split: option.splits)

lemma positive_compare_asc:
  assumes "deadline_time rt a \<noteq> NaN" "deadline_time rt b \<noteq> NaN"
  shows "positive (compareTasks rt ByDeadline Asc a b) \<longleftrightarrow> key_asc rt b < key_asc rt a"
  using deadline_time_cases [OF assms(1)] deadline_time_cases [OF assms(2)]
  by (auto simp: compareTasks_def key_asc_def Let_def)

lemma positive_compare_desc:
  assumes "deadline_time rt a \<noteq> NaN" "deadline_time rt b \<noteq> NaN"
  shows "positive (compareTasks rt ByDeadline Desc a b) \<longleftrightarrow> key_desc rt b < key_desc rt a"
  using deadline_time_cases [OF assms(1)] deadline_time_cases [OF assms(2)]
  by (auto simp: compareTasks_def key_desc_def Let_def)

lemma sortedTasks_asc_sort_key:
  assumes "list_all (\<lambda>t. deadline_time rt t \<noteq> NaN) ts"
  shows "sortedTasks rt ByDeadline Asc ts = sort_key (key_asc rt) ts"
  unfolding sortedTasks_def
  by (rule array_sort_sort_key) (use assms in \<open>simp add: list_all_iff positive_compare_asc\<close>)

lemma sortedTasks_desc_sort_key:
  assumes "list_all (\<lambda>t. deadline_time rt t \<noteq> NaN) ts"
  shows "sortedTasks rt ByDeadline Desc ts = sort_key (key_desc rt) ts"
  unfolding sortedTasks_def
  by (rule array_sort_sort_key) (use assms in \<open>simp add: list_all_iff positive_compare_desc\<close>)

lemma key_asc_order:
  assumes "deadline_time rt a \<noteq> NaN" "deadline_time rt b \<noteq> NaN" "key_asc rt a \<le> key_asc rt b"
  shows "has_deadline a \<or> \<not> has_deadline b"
  using deadline_time_cases [OF assms(1)] deadline_time_cases [OF assms(2)] assms(3)
  by (auto simp: key_asc_def)

lemma key_desc_order:
  assumes "deadline_time rt a \<noteq> NaN" "deadline_time rt b \<noteq> NaN" "key_desc rt a \<le> key_desc rt b"
  shows "\<not> has_deadline a \<or> has_deadline b"
  using deadline_time_cases [OF assms(1)] deadline_time_cases [OF assms(2)] assms(3)
  by (auto simp: key_desc_def)

lemma key_asc_same:
  assumes "deadline_time rt a \<noteq> NaN"
  shows "deadline_time rt a = k \<longleftrightarrow> (k \<noteq> NaN \<and> k \<noteq> NegInf) \<and> key_asc rt a = (case k of Finite v \<Rightarrow> (0, v) | _ \<Rightarrow> (1, 0))"
  using deadline_time_cases [OF assms]
  by (cases k) (auto simp: key_asc_def)

lemma key_desc_same:
  assumes "deadline_time rt a \<noteq> NaN"
  shows "deadline_time rt a = k \<longleftrightarrow> (k \<noteq> NaN \<and> k \<noteq> NegInf) \<and> key_desc rt a = (case k of Finite v \<Rightarrow> (1, - v) | _ \<Rightarrow> (0, 0))"
  using deadline_time_cases [OF assms]
  by (cases k) (auto simp: key_desc_def)

lemma stable_by_key:
  fixes key :: "'a \<Rightarrow> 'k::linorder"
  assumes "\<And>t. t \<in> set ts \<Longrightarrow> (d t = k) = (ok \<and> key t = kk)"
  shows "filter (\<lambda>t. d t = k) (sort_key key ts) = filter (\<lambda>t. d t = k) ts"
proof -
  have "filter (\<lambda>t. d t = k) (sort_key key ts) = filter (\<lambda>t. ok \<and> key t = kk) (sort_key key ts)"
    by (rule filter_cong) (simp_all add: assms)
  also have "\<dots> = (if ok then filter (\<lambda>t. key t = kk) (sort_key key ts) else [])"
    by simp
  also have "\<dots> = (if ok then filter (\<lambda>t. key t = kk) ts else [])"
    by (simp add: sort_key_stable)
  also have "\<dots> = filter (\<lambda>t. ok \<and> key t = kk) ts"
    by simp
  also have "\<dots> = filter (\<lambda>t. d t = k) ts"
    by (rule filter_cong) (simp_all add: assms)
  finally show ?thesis .
qed

text \<open>
  C3 (as amended): for every list of tasks none of whose deadlines is unparseable,
  sorting by deadline places no task without deadline before a task with one in the
  ascending order, and no task with a deadline before a task without one in the
  descending order (there the undated tasks come first); in both orders the tasks of
  equal sort key keep their relative input order.
\<close>

theorem sortedTasks_by_deadline:
  assumes "list_all (\<lambda>t. deadline_time rt t \<noteq> NaN) ts"
  shows "sorted_wrt (\<lambda>a b. has_deadline a \<or> \<not> has_deadline b) (sortedTasks rt ByDeadline Asc ts) \<and>
         sorted_wrt (\<lambda>a b. \<not> has_deadline a \<or> has_deadline b) (sortedTasks rt ByDeadline Desc ts) \<and>
         (\<forall>k. filter (\<lambda>t. deadline_time rt t = k) (sortedTasks rt ByDeadline Asc ts) =
               filter (\<lambda>t. deadline_time rt t = k) ts) \<and>
         (\<forall>k. filter (\<lambda>t. deadline_time rt t = k) (sortedTasks rt ByDeadline Desc ts) =
               filter (\<lambda>t. deadline_time rt t = k) ts)"
proof -
  from assms have ok: "\<And>t. t \<in> set ts \<Longrightarrow> deadline_time rt t \<noteq> NaN"
    by (simp add: list_all_iff)
  have asc: "sortedTasks rt ByDeadline Asc ts = sort_key (key_asc rt) ts"
    by (rule sortedTasks_asc_sort_key [OF assms])
  have desc: "sortedTasks rt ByDeadline Desc ts = sort_key (key_desc rt) ts"
    by (rule sortedTasks_desc_sort_key [OF assms])
  have s1: "sorted_wrt (\<lambda>a b. key_asc rt a \<le> key_asc rt b) (sort_key (key_asc rt) ts)"
    using sorted_sort_key [of "key_asc rt" ts] by (simp add: sorted_map)
  have 1: "sorted_wrt (\<lambda>a b. has_deadline a \<or> \<not> has_deadline b) (sort_key (key_asc rt) ts)"
  proof (rule sorted_wrt_mono_rel [OF _ s1])
    fix x y
    assume "x \<in> set (sort_key (key_asc rt) ts)" "y \<in> set (sort_key (key_asc rt) ts)"
      and "key_asc rt x \<le> key_asc rt y"
    then show "has_deadline x \<or> \<not> has_deadline y"
      using key_asc_order [of rt x y] ok by simp
  qed
  have s2: "sorted_wrt (\<lambda>a b. key_desc rt a \<le> key_desc rt b) (sort_key (key_desc rt) ts)"
    using sorted_sort_key [of "key_desc rt" ts] by (simp add: sorted_map)
  have 2: "sorted_wrt (\<lambda>a b. \<not> has_deadline a \<or> has_deadline b) (sort_key (key_desc rt) ts)"
  proof (rule sorted_wrt_mono_rel [OF _ s2])
    fix x y
    assume "x \<in> set (sort_key (key_desc rt) ts)" "y \<in> set (sort_key (key_desc rt) ts)"
      and "key_desc rt x \<le> key_desc rt y"
    then show "\<not> has_deadline x \<or> has_deadline y"
      using key_desc_order [of rt x y] ok by simp
  qed
  have 3: "filter (\<lambda>t. deadline_time rt t = k) (sort_key (key_asc rt) ts) =
           filter (\<lambda>t. deadline_time rt t = k) ts" for k
    by (rule stable_by_key) (rule key_asc_same [OF ok])
  have 4: "filter (\<lambda>t. deadline_time rt t = k) (sort_key (key_desc rt) ts) =
           filter (\<lambda>t. deadline_time rt t = k) ts" for k
    by (rule stable_by_key) (rule key_desc_same [OF ok])
  show ?thesis unfolding asc desc using 1 2 3 4 by blast
qed

lemmas sort_eval =
  sortedTasks_def array_sort_def compareTasks_def deadline_time_def has_deadline_def
  sample_runtime_def task_milk_def task_report_def task_done_def js_def Let_def

theorem sortedTasks_by_deadline_witness:
  "list_all (\<lambda>t. deadline_time sample_runtime t \<noteq> NaN) [task_report, task_done, task_milk] \<and>
   sortedTasks sample_runtime ByDeadline Asc [task_report, task_done, task_milk] =
     [task_milk, task_done, task_report] \<and>
   sortedTasks sample_runtime ByDeadline Desc [task_report, task_done, task_milk] =
     [task_report, task_done, task_milk] \<and>
   sorted_wrt (\<lambda>a b. has_deadline a \<or> \<not> has_deadline b)
     (sortedTasks sample_runtime ByDeadline Asc [task_report, task_done, task_milk]) \<and>
   sorted_wrt (\<lambda>a b. \<not> has_deadline a \<or> has_deadline b)
     (sortedTasks sample_runtime ByDeadline Desc [task_report, task_done, task_milk])"
proof -
  have h: "list_all (\<lambda>t. deadline_time sample_runtime t \<noteq> NaN) [task_report, task_done, task_milk]"
    by (simp add: sort_eval)
  have a: "sortedTasks sample_runtime ByDeadline Asc [task_report, task_done, task_milk] =
     [task_milk, task_done, task_report]"
    by (simp add: sort_eval)
  have d: "sortedTasks sample_runtime ByDeadline Desc [task_report, task_done, task_milk] =
     [task_report, task_done, task_milk]"
    by (simp add: sort_eval)
  from sortedTasks_by_deadline [OF h] h a d show ?thesis by simp
qed

text \<open>
  The claim as stated fails in the descending order: the task without deadline is
  placed before the task whose deadline parses.
\<close>

theorem sortedTasks_desc_undated_first:
  "sortedTasks sample_runtime ByDeadline Desc [task_milk, task_report] = [task_report, task_milk] \<and>
   has_deadline task_milk \<and> parseDate sample_runtime (the (deadline task_milk)) = Some 1704412800000 \<and>
   \<not> has_deadline task_report"
  by (simp add: sort_eval)


end
